theory Spec2Isabelle
  imports Main
begin

section \<open>Strings: the setters and the e-mail pattern of the User schema\<close>

text \<open>
  \<^verbatim>\<open>src/models/User.ts\<close> declares the \<^verbatim>\<open>email\<close> path with
  \<^verbatim>\<open>lowercase: true, trim: true\<close> and a \<^verbatim>\<open>match\<close> validator, and the
  \<^verbatim>\<open>name\<close> path with \<^verbatim>\<open>trim: true\<close>. The two setters call
  \<^verbatim>\<open>String.prototype.toLowerCase\<close> and \<^verbatim>\<open>String.prototype.trim\<close> of the JavaScript
  runtime, which work on all of Unicode. They are parameters of the model: every handler
  that runs a setter takes the runtime, and nothing is assumed about the two functions.
  A string is the sequence of its UTF-8 bytes.
\<close>

record runtime =
  js_toLowerCase :: "string \<Rightarrow> string"
  js_trim :: "string \<Rightarrow> string"

text \<open>
  The setters of the \<^verbatim>\<open>email\<close> path, applied to stored values and to query values.
  (On the runtime's functions the two setters commute, so their order does not matter.)
\<close>

definition normalize_email :: "runtime \<Rightarrow> string \<Rightarrow> string" where
  "normalize_email R e = js_trim R (js_toLowerCase R e)"

text \<open>
  Regular expressions without anchors; \<open>matches\<close> decides whether the whole string
  belongs to the language, which is what \<^verbatim>\<open>/^...$/.test(s)\<close> decides. The classes
  of the pattern hold ASCII characters only, so a character outside ASCII matches none
  of them, whether it is read as UTF-16 units or, as here, as UTF-8 bytes.
\<close>

datatype cclass = Word | Dot | DotOrDash | At

definition is_word :: "char \<Rightarrow> bool" where
  "is_word c \<longleftrightarrow>
     (let n = (of_char c :: nat) in
        (48 \<le> n \<and> n \<le> 57) \<or> (65 \<le> n \<and> n \<le> 90) \<or> (97 \<le> n \<and> n \<le> 122) \<or> n = 95)"

fun in_class :: "cclass \<Rightarrow> char \<Rightarrow> bool" where
  "in_class Word c = is_word c"
| "in_class Dot c = (c = CHR ''.'')"
| "in_class DotOrDash c = (c = CHR ''.'' \<or> c = CHR ''-'')"
| "in_class At c = (c = CHR ''@'')"

datatype regex =
    Fail
  | Eps
  | Cls cclass
  | Cat regex regex
  | Alt regex regex
  | Star regex

fun nullable :: "regex \<Rightarrow> bool" where
  "nullable Fail = False"
| "nullable Eps = True"
| "nullable (Cls k) = False"
| "nullable (Cat r s) = (nullable r \<and> nullable s)"
| "nullable (Alt r s) = (nullable r \<or> nullable s)"
| "nullable (Star r) = True"

fun cat :: "regex \<Rightarrow> regex \<Rightarrow> regex" where
  "cat Fail s = Fail"
| "cat Eps s = s"
| "cat r s = Cat r s"

fun alt :: "regex \<Rightarrow> regex \<Rightarrow> regex" where
  "alt Fail s = s"
| "alt r Fail = r"
| "alt r s = Alt r s"

fun deriv :: "char \<Rightarrow> regex \<Rightarrow> regex" where
  "deriv c Fail = Fail"
| "deriv c Eps = Fail"
| "deriv c (Cls k) = (if in_class k c then Eps else Fail)"
| "deriv c (Cat r s) =
     (if nullable r then alt (cat (deriv c r) s) (deriv c s) else cat (deriv c r) s)"
| "deriv c (Alt r s) = alt (deriv c r) (deriv c s)"
| "deriv c (Star r) = cat (deriv c r) (Star r)"

fun matches :: "regex \<Rightarrow> string \<Rightarrow> bool" where
  "matches r [] = nullable r"
| "matches r (c # cs) = matches (deriv c r) cs"

definition plus :: "regex \<Rightarrow> regex" where
  "plus r = Cat r (Star r)"

definition opt :: "regex \<Rightarrow> regex" where
  "opt r = Alt r Eps"

text \<open>
  \<^verbatim>\<open>/^\w+([\.-]?\w+)*@\w+([\.-]?\w+)*(\.\w{2,3})+$/\<close>
\<close>

definition email_pattern :: regex where
  "email_pattern =
     Cat (plus (Cls Word))
    (Cat (Star (Cat (opt (Cls DotOrDash)) (plus (Cls Word))))
    (Cat (Cls At)
    (Cat (plus (Cls Word))
    (Cat (Star (Cat (opt (Cls DotOrDash)) (plus (Cls Word))))
         (plus (Cat (Cls Dot) (Cat (Cls Word) (Cat (Cls Word) (opt (Cls Word))))))))))"

section \<open>Documents and collections\<close>

text \<open>
  The two collections of \<^verbatim>\<open>src/models/User.ts\<close> and \<^verbatim>\<open>src/models/Otp.ts\<close>.
  A collection is the list of its documents in insertion order, and a query for one
  document returns the first that matches; \<^verbatim>\<open>_id\<close> values come from a counter.
  Requests are served one after the other. The \<^verbatim>\<open>timestamps\<close> of the User schema
  are not modelled.
\<close>

record preferences =
  notificationsEnabled :: bool
  darkMode :: bool
  newsletterSubscribed :: bool

record user =
  user_id :: nat
  name :: string
  email :: string
  password :: string
  role :: string
  isVerified :: bool
  image_url :: string
  phoneNumber :: string
  bio :: string
  preferences :: preferences

datatype otp_type = Verification | Reset

record otp =
  otp_id :: nat
  otp_email :: string
  otp_code :: string
  otp_type :: otp_type
  expiresAt :: int

record state =
  users :: "user list"
  otps :: "otp list"
  next_id :: nat

definition init_state :: state where
  "init_state = \<lparr>users = [], otps = [], next_id = 0\<rparr>"

text \<open>The first document that satisfies the filter is replaced (\<^verbatim>\<open>findOneAndUpdate\<close>).\<close>

fun update_first :: "('a \<Rightarrow> bool) \<Rightarrow> ('a \<Rightarrow> 'a) \<Rightarrow> 'a list \<Rightarrow> 'a list" where
  "update_first P f [] = []"
| "update_first P f (x # xs) = (if P x then f x # xs else x # update_first P f xs)"

text \<open>The first document that satisfies the filter is removed (\<^verbatim>\<open>deleteOne\<close>).\<close>

fun delete_first :: "('a \<Rightarrow> bool) \<Rightarrow> 'a list \<Rightarrow> 'a list" where
  "delete_first P [] = []"
| "delete_first P (x # xs) = (if P x then xs else x # delete_first P xs)"

text \<open>
  \<^verbatim>\<open>User.findOne({ email })\<close>: the query value passes through the setters of the
  \<^verbatim>\<open>email\<close> path before it is compared.
\<close>

definition findOne_user :: "runtime \<Rightarrow> state \<Rightarrow> string \<Rightarrow> user option" where
  "findOne_user R S e = find (\<lambda>u. email u = normalize_email R e) (users S)"

definition findById :: "state \<Rightarrow> nat \<Rightarrow> user option" where
  "findById S i = find (\<lambda>u. user_id u = i) (users S)"

text \<open>\<^verbatim>\<open>Otp.findOne({ email, code, type })\<close>: the Otp schema has no setters.\<close>

definition findOne_otp :: "state \<Rightarrow> string \<Rightarrow> string \<Rightarrow> otp_type \<Rightarrow> otp option" where
  "findOne_otp S e c t =
     find (\<lambda>r. otp_email r = e \<and> otp_code r = c \<and> otp_type r = t) (otps S)"

definition deleteOne_otp :: "nat \<Rightarrow> state \<Rightarrow> state" where
  "deleteOne_otp i S = S\<lparr>otps := delete_first (\<lambda>r. otp_id r = i) (otps S)\<rparr>"

text \<open>
  The TTL index of \<^verbatim>\<open>expiresAt\<close> (\<^verbatim>\<open>index: { expires: 0 }\<close>): the database removes
  the documents whose time has been reached, at a moment of its own choosing.
\<close>

definition ttl_sweep :: "int \<Rightarrow> state \<Rightarrow> state" where
  "ttl_sweep now S = S\<lparr>otps := filter (\<lambda>r. now < expiresAt r) (otps S)\<rparr>"

subsection \<open>Validation of a User document\<close>

text \<open>
  The validators of the User schema, on a document whose setters have run: \<^verbatim>\<open>required\<close>
  on name, e-mail and password, \<^verbatim>\<open>match\<close> on the e-mail, \<^verbatim>\<open>minlength\<close> on the
  password (the digest, which bcrypt writes in ASCII) and \<^verbatim>\<open>enum\<close> on the role.
\<close>

datatype validation_error =
    NameRequired
  | EmailRequired
  | EmailInvalid
  | PasswordRequired
  | PasswordTooShort
  | RoleNotInEnum

definition validate_user :: "user \<Rightarrow> validation_error list" where
  "validate_user d =
     (if name d = [] then [NameRequired] else []) @
     (if email d = [] then [EmailRequired]
      else if \<not> matches email_pattern (email d) then [EmailInvalid] else []) @
     (if password d = [] then [PasswordRequired]
      else if length (password d) < 6 then [PasswordTooShort] else []) @
     (if role d \<noteq> ''user'' \<and> role d \<noteq> ''admin'' then [RoleNotInEnum] else [])"

section \<open>Libraries and environment\<close>

text \<open>
  \<^verbatim>\<open>bcryptjs\<close> and \<^verbatim>\<open>jsonwebtoken\<close> are parameters of the model, as is the
  environment variable \<^verbatim>\<open>JWT_SECRET\<close>. \<^verbatim>\<open>jwt_verify\<close> returns \<open>None\<close> where
  \<^verbatim>\<open>jwt.verify\<close> throws.
\<close>

record session =
  userId :: nat
  session_role :: string

record libs =
  bcrypt_hash :: "string \<Rightarrow> nat \<Rightarrow> string"
  bcrypt_compare :: "string \<Rightarrow> string \<Rightarrow> bool"
  jwt_sign :: "session \<Rightarrow> string \<Rightarrow> int \<Rightarrow> string"
  jwt_verify :: "string \<Rightarrow> string \<Rightarrow> int \<Rightarrow> session option"
  env_JWT_SECRET :: "string option"

text \<open>\<^verbatim>\<open>process.env.JWT_SECRET || "fallback_secret_keep_it_safe"\<close>\<close>

definition JWT_SECRET :: "libs \<Rightarrow> string" where
  "JWT_SECRET L =
     (case env_JWT_SECRET L of
        None \<Rightarrow> ''fallback_secret_keep_it_safe''
      | Some s \<Rightarrow> if s = [] then ''fallback_secret_keep_it_safe'' else s)"

text \<open>\<^verbatim>\<open>getSession\<close> of \<^verbatim>\<open>src/lib/auth.ts\<close>; the argument is the \<^verbatim>\<open>token\<close> cookie.\<close>

definition getSession :: "libs \<Rightarrow> int \<Rightarrow> string option \<Rightarrow> session option" where
  "getSession L now token =
     (case token of
        None \<Rightarrow> None
      | Some t \<Rightarrow> if t = [] then None else jwt_verify L t (JWT_SECRET L) now)"

section \<open>Responses\<close>

datatype payload =
    NoPayload
  | UserId nat
  | Unverified
  | ValidationFailed "validation_error list"
  | LoginUser nat string string string
  | UpdatedUser "user option"
  | UpdatedPreferences preferences

record response =
  status :: nat
  message :: string
  payload :: payload
  cookie :: "string option"

definition json :: "nat \<Rightarrow> string \<Rightarrow> response" where
  "json st msg = \<lparr>status = st, message = msg, payload = NoPayload, cookie = None\<rparr>"

section \<open>The route handlers\<close>

text \<open>
  Every handler takes the clock reading of the request (\<^verbatim>\<open>Date.now()\<close>, in
  milliseconds) and the database state, and returns the response with the new state.
  Request bodies are well typed: a field a handler uses unconditionally is a string;
  a field that may be left out is an option, \<open>None\<close> standing for \<^verbatim>\<open>undefined\<close>.
\<close>

subsection \<open>\<^verbatim>\<open>POST /api/auth/signup\<close>\<close>

text \<open>\<^verbatim>\<open>role || "user"\<close>: the empty string is falsy.\<close>

definition role_or_user :: "string option \<Rightarrow> string" where
  "role_or_user r = (case r of None \<Rightarrow> ''user'' | Some x \<Rightarrow> if x = [] then ''user'' else x)"

text \<open>
  The document \<^verbatim>\<open>User.create\<close> builds: the setters of \<^verbatim>\<open>name\<close> and \<^verbatim>\<open>email\<close>
  have run and the schema's defaults are filled in. \<^verbatim>\<open>User.create\<close> validates the
  document and throws when a validator fails, which ends in the handler's \<^verbatim>\<open>catch\<close>.
  \<^verbatim>\<open>Otp.create\<close> validates too, but after a valid user its required paths are all
  present (the e-mail is not empty, since its normal form matched the pattern).
\<close>

definition new_user ::
  "runtime \<Rightarrow> nat \<Rightarrow> string \<Rightarrow> string \<Rightarrow> string \<Rightarrow> string \<Rightarrow> user" where
  "new_user R i nm em hashedPassword rl =
     \<lparr>user_id = i, name = js_trim R nm, email = normalize_email R em,
      password = hashedPassword,
      role = rl, isVerified = False, image_url = [], phoneNumber = [], bio = [],
      preferences =
        \<lparr>notificationsEnabled = True, darkMode = False, newsletterSubscribed = False\<rparr>\<rparr>"

definition signup ::
  "runtime \<Rightarrow> libs \<Rightarrow> int \<Rightarrow> state \<Rightarrow>
   string \<Rightarrow> string \<Rightarrow> string \<Rightarrow> string option \<Rightarrow> response \<times> state" where
  "signup R L now S nm em pw rl =
     (case findOne_user R S em of
        Some existingUser \<Rightarrow> (json 400 ''A user with this email already exists'', S)
      | None \<Rightarrow>
          (let hashedPassword = bcrypt_hash L pw 10;
               newUser = new_user R (next_id S) nm em hashedPassword (role_or_user rl)
           in case validate_user newUser of
                e # es \<Rightarrow>
                  (\<lparr>status = 500, message = ''Server error during registration'',
                    payload = ValidationFailed (e # es), cookie = None\<rparr>, S)
              | [] \<Rightarrow>
                  (\<lparr>status = 201,
                    message = ''User registered successfully. Please verify your email.'',
                    payload = UserId (user_id newUser), cookie = None\<rparr>,
                   S\<lparr>users := users S @ [newUser],
                     otps := otps S @
                       [\<lparr>otp_id = Suc (next_id S), otp_email = em, otp_code = ''123456'',
                         otp_type = Verification, expiresAt = now + 10 * 60 * 1000\<rparr>],
                     next_id := Suc (Suc (next_id S))\<rparr>)))"

subsection \<open>\<^verbatim>\<open>POST /api/auth/verify-otp\<close>\<close>

definition verify_otp ::
  "runtime \<Rightarrow> int \<Rightarrow> state \<Rightarrow> string \<Rightarrow> string \<Rightarrow> response \<times> state" where
  "verify_otp R now S em cd =
     (case findOne_otp S em cd Verification of
        None \<Rightarrow> (json 400 ''Invalid or expired verification code'', S)
      | Some otpRecord \<Rightarrow>
          if now > expiresAt otpRecord
          then (json 400 ''Verification code has expired'', deleteOne_otp (otp_id otpRecord) S)
          else (json 200 ''Account verified successfully. You can now login.'',
                deleteOne_otp (otp_id otpRecord)
                  (S\<lparr>users := update_first (\<lambda>u. email u = normalize_email R em)
                                 (\<lambda>u. u\<lparr>isVerified := True\<rparr>) (users S)\<rparr>)))"

subsection \<open>\<^verbatim>\<open>POST /api/auth/login\<close>\<close>

definition login ::
  "runtime \<Rightarrow> libs \<Rightarrow> int \<Rightarrow> state \<Rightarrow> string \<Rightarrow> string \<Rightarrow> response \<times> state" where
  "login R L now S em pw =
     (case findOne_user R S em of
        None \<Rightarrow> (json 401 ''Invalid email or password'', S)
      | Some u \<Rightarrow>
          if \<not> isVerified u
          then (\<lparr>status = 403, message = ''Please verify your email before logging in'',
                 payload = Unverified, cookie = None\<rparr>, S)
          else if \<not> bcrypt_compare L pw (password u)
          then (json 401 ''Invalid email or password'', S)
          else (\<lparr>status = 200, message = ''Login successful'',
                 payload = LoginUser (user_id u) (name u) (email u) (role u),
                 cookie = Some (jwt_sign L \<lparr>userId = user_id u, session_role = role u\<rparr>
                                  (JWT_SECRET L) now)\<rparr>, S))"

subsection \<open>\<^verbatim>\<open>POST /api/auth/forgot-password\<close>\<close>

text \<open>
  \<^verbatim>\<open>Otp.findOneAndUpdate({ email, type: "reset" }, { code, expiresAt }, { upsert: true })\<close>
\<close>

definition upsert_reset :: "string \<Rightarrow> string \<Rightarrow> int \<Rightarrow> state \<Rightarrow> state" where
  "upsert_reset em cd ex S =
     (case find (\<lambda>r. otp_email r = em \<and> otp_type r = Reset) (otps S) of
        Some r \<Rightarrow>
          S\<lparr>otps := update_first (\<lambda>r. otp_email r = em \<and> otp_type r = Reset)
                         (\<lambda>r. r\<lparr>otp_code := cd, expiresAt := ex\<rparr>) (otps S)\<rparr>
      | None \<Rightarrow>
          S\<lparr>otps := otps S @
                 [\<lparr>otp_id = next_id S, otp_email = em, otp_code = cd, otp_type = Reset,
                   expiresAt = ex\<rparr>],
            next_id := Suc (next_id S)\<rparr>)"

definition forgot_password ::
  "runtime \<Rightarrow> int \<Rightarrow> state \<Rightarrow> string \<Rightarrow> response \<times> state" where
  "forgot_password R now S em =
     (case findOne_user R S em of
        None \<Rightarrow>
          (json 200 ''If an account exists with this email, we have sent a reset code.'', S)
      | Some u \<Rightarrow>
          (json 200 ''Reset code sent to your email.'',
           upsert_reset em ''123456'' (now + 15 * 60 * 1000) S))"

subsection \<open>\<^verbatim>\<open>POST /api/auth/reset-password\<close>\<close>

definition reset_password ::
  "runtime \<Rightarrow> libs \<Rightarrow> int \<Rightarrow> state \<Rightarrow>
   string \<Rightarrow> string \<Rightarrow> string \<Rightarrow> response \<times> state" where
  "reset_password R L now S em cd newPassword =
     (case findOne_otp S em cd Reset of
        None \<Rightarrow> (json 400 ''Invalid or expired reset code'', S)
      | Some otpRecord \<Rightarrow>
          (let hashedNewPassword = bcrypt_hash L newPassword 10
           in (json 200 ''Password updated successfully. You can now login.'',
               deleteOne_otp (otp_id otpRecord)
                 (S\<lparr>users := update_first (\<lambda>u. email u = normalize_email R em)
                                (\<lambda>u. u\<lparr>password := hashedNewPassword\<rparr>) (users S)\<rparr>))))"

subsection \<open>\<^verbatim>\<open>PATCH\<close> of the password, the profile and the settings\<close>

text \<open>
  \<^verbatim>\<open>user.save()\<close> validates the loaded document with the new digest in it; a
  validator that fails (on the digest, or on a name that the profile handler has blanked)
  makes it throw, which ends in the handler's \<^verbatim>\<open>catch\<close> with nothing saved.
\<close>

definition update_password ::
  "libs \<Rightarrow> int \<Rightarrow> state \<Rightarrow> string option \<Rightarrow> string \<Rightarrow> string \<Rightarrow> response \<times> state" where
  "update_password L now S token currentPassword newPassword =
     (case getSession L now token of
        None \<Rightarrow> (json 401 ''Unauthorized'', S)
      | Some sess \<Rightarrow>
          (case findById S (userId sess) of
             None \<Rightarrow> (json 404 ''User not found'', S)
           | Some u \<Rightarrow>
               if \<not> bcrypt_compare L currentPassword (password u)
               then (json 400 ''Incorrect current password'', S)
               else (let hashedPassword = bcrypt_hash L newPassword 10
                     in if validate_user (u\<lparr>password := hashedPassword\<rparr>) \<noteq> []
                        then (json 500 ''Server error'', S)
                        else (json 200 ''Password updated successfully'',
                              S\<lparr>users := update_first (\<lambda>x. user_id x = user_id u)
                                             (\<lambda>x. x\<lparr>password := hashedPassword\<rparr>) (users S)\<rparr>))))"

text \<open>
  \<^verbatim>\<open>$set: { name, bio, phoneNumber, image }\<close>: Mongoose (from version 6) strips the keys
  whose value is \<^verbatim>\<open>undefined\<close> from an update, so a field that the request leaves out
  is not written. The setter of \<^verbatim>\<open>name\<close> runs on the update; validators do not.
\<close>

definition set_profile ::
  "runtime \<Rightarrow> string option \<Rightarrow> string option \<Rightarrow> string option \<Rightarrow> string option \<Rightarrow>
   user \<Rightarrow> user" where
  "set_profile R nm bi ph im u =
     (let u1 = (case nm of None \<Rightarrow> u | Some v \<Rightarrow> u\<lparr>name := js_trim R v\<rparr>);
          u2 = (case bi of None \<Rightarrow> u1 | Some v \<Rightarrow> u1\<lparr>bio := v\<rparr>);
          u3 = (case ph of None \<Rightarrow> u2 | Some v \<Rightarrow> u2\<lparr>phoneNumber := v\<rparr>)
      in (case im of None \<Rightarrow> u3 | Some v \<Rightarrow> u3\<lparr>image_url := v\<rparr>))"

text \<open>The \<^verbatim>\<open>password\<close> path has \<^verbatim>\<open>select: false\<close>: a fetched document comes without it.\<close>

definition without_password :: "user \<Rightarrow> user" where
  "without_password u = u\<lparr>password := []\<rparr>"

definition update_profile ::
  "runtime \<Rightarrow> libs \<Rightarrow> int \<Rightarrow> state \<Rightarrow> string option \<Rightarrow>
   string option \<Rightarrow> string option \<Rightarrow> string option \<Rightarrow> string option \<Rightarrow> response \<times> state" where
  "update_profile R L now S token nm bi ph im =
     (case getSession L now token of
        None \<Rightarrow> (json 401 ''Unauthorized'', S)
      | Some sess \<Rightarrow>
          (let S' = S\<lparr>users := update_first (\<lambda>u. user_id u = userId sess)
                                 (set_profile R nm bi ph im) (users S)\<rparr>
           in (\<lparr>status = 200, message = ''Profile updated successfully'',
                payload = UpdatedUser (map_option without_password (findById S' (userId sess))),
                cookie = None\<rparr>, S')))"

record preferences_patch =
  patch_notificationsEnabled :: "bool option"
  patch_darkMode :: "bool option"
  patch_newsletterSubscribed :: "bool option"

definition set_preferences :: "preferences_patch \<Rightarrow> user \<Rightarrow> user" where
  "set_preferences p u =
     (let q = preferences u;
          q1 = (case patch_notificationsEnabled p of
                  None \<Rightarrow> q | Some b \<Rightarrow> q\<lparr>notificationsEnabled := b\<rparr>);
          q2 = (case patch_darkMode p of None \<Rightarrow> q1 | Some b \<Rightarrow> q1\<lparr>darkMode := b\<rparr>);
          q3 = (case patch_newsletterSubscribed p of
                  None \<Rightarrow> q2 | Some b \<Rightarrow> q2\<lparr>newsletterSubscribed := b\<rparr>)
      in u\<lparr>preferences := q3\<rparr>)"

text \<open>
  A body without \<^verbatim>\<open>preferences\<close> makes \<^verbatim>\<open>preferences.notificationsEnabled\<close> throw,
  and a session whose user is gone makes \<^verbatim>\<open>updatedUser.preferences\<close> throw; both end in
  the handler's \<^verbatim>\<open>catch\<close>.
\<close>

definition update_settings ::
  "libs \<Rightarrow> int \<Rightarrow> state \<Rightarrow> string option \<Rightarrow> preferences_patch option \<Rightarrow> response \<times> state" where
  "update_settings L now S token prefs =
     (case getSession L now token of
        None \<Rightarrow> (json 401 ''Unauthorized'', S)
      | Some sess \<Rightarrow>
          (case prefs of
             None \<Rightarrow> (json 500 ''Server error'', S)
           | Some p \<Rightarrow>
               (let S' = S\<lparr>users := update_first (\<lambda>u. user_id u = userId sess)
                                      (set_preferences p) (users S)\<rparr>
                in case findById S' (userId sess) of
                     None \<Rightarrow> (json 500 ''Server error'', S')
                   | Some updatedUser \<Rightarrow>
                       (\<lparr>status = 200, message = ''Settings updated successfully'',
                         payload = UpdatedPreferences (preferences updatedUser),
                         cookie = None\<rparr>, S'))))"

section \<open>Runs of the system\<close>

text \<open>
  An event is a request to one of the handlers, or a sweep of the TTL index. A run serves
  a list of events from the empty database on one runtime; every event comes with the
  clock reading and with the behaviour of the libraries at that moment (bcrypt draws a
  salt of its own for every hash).
\<close>

datatype event =
    Signup string string string "string option"
  | VerifyOtp string string
  | Login string string
  | ForgotPassword string
  | ResetPassword string string string
  | UpdatePassword "string option" string string
  | UpdateProfile "string option" "string option" "string option" "string option" "string option"
  | UpdateSettings "string option" "preferences_patch option"
  | TtlSweep

fun step :: "runtime \<Rightarrow> libs \<Rightarrow> int \<Rightarrow> event \<Rightarrow> state \<Rightarrow> state" where
  "step R L now (Signup nm em pw rl) S = snd (signup R L now S nm em pw rl)"
| "step R L now (VerifyOtp em cd) S = snd (verify_otp R now S em cd)"
| "step R L now (Login em pw) S = snd (login R L now S em pw)"
| "step R L now (ForgotPassword em) S = snd (forgot_password R now S em)"
| "step R L now (ResetPassword em cd pw) S = snd (reset_password R L now S em cd pw)"
| "step R L now (UpdatePassword tok cur new) S = snd (update_password L now S tok cur new)"
| "step R L now (UpdateProfile tok nm bi ph im) S =
     snd (update_profile R L now S tok nm bi ph im)"
| "step R L now (UpdateSettings tok p) S = snd (update_settings L now S tok p)"
| "step R L now TtlSweep S = ttl_sweep now S"

fun run :: "runtime \<Rightarrow> (libs \<times> int \<times> event) list \<Rightarrow> state \<Rightarrow> state" where
  "run R [] S = S"
| "run R ((L, now, ev) # evs) S = run R evs (step R L now ev S)"

section \<open>Responses named by the specification's errors\<close>

definition invalid_credentials :: response where
  "invalid_credentials = json 401 ''Invalid email or password''"

definition not_verified :: response where
  "not_verified =
     \<lparr>status = 403, message = ''Please verify your email before logging in'',
      payload = Unverified, cookie = None\<rparr>"

definition duplicate_email :: response where
  "duplicate_email = json 400 ''A user with this email already exists''"

definition created :: "nat \<Rightarrow> response" where
  "created i =
     \<lparr>status = 201, message = ''User registered successfully. Please verify your email.'',
      payload = UserId i, cookie = None\<rparr>"

definition invalid_verification_code :: response where
  "invalid_verification_code = json 400 ''Invalid or expired verification code''"

definition invalid_reset_code :: response where
  "invalid_reset_code = json 400 ''Invalid or expired reset code''"

definition unauthorized :: response where
  "unauthorized = json 401 ''Unauthorized''"

text \<open>The credential and identity fields of a user.\<close>

definition credentials :: "user \<Rightarrow> nat \<times> string \<times> string \<times> string \<times> bool" where
  "credentials u = (user_id u, email u, password u, role u, isVerified u)"

text \<open>The one-time code that a successful signup stores.\<close>

definition verification_otp :: "nat \<Rightarrow> string \<Rightarrow> int \<Rightarrow> otp" where
  "verification_otp i em now =
     \<lparr>otp_id = i, otp_email = em, otp_code = ''123456'', otp_type = Verification,
      expiresAt = now + 10 * 60 * 1000\<rparr>"

section \<open>The invariant of the one-time-code store\<close>

text \<open>
  No two codes share e-mail and purpose, no two share an \<^verbatim>\<open>_id\<close>, every \<^verbatim>\<open>_id\<close> is
  below the counter, and the e-mail of every verification code belongs to a user.
\<close>

definition otp_key :: "otp \<Rightarrow> string \<times> otp_type" where
  "otp_key r = (otp_email r, otp_type r)"

definition store_invariant :: "runtime \<Rightarrow> state \<Rightarrow> bool" where
  "store_invariant R S \<longleftrightarrow>
     distinct (map otp_key (otps S)) \<and>
     distinct (map otp_id (otps S)) \<and>
     (\<forall>r \<in> set (otps S). otp_id r < next_id S) \<and>
     (\<forall>r \<in> set (otps S). otp_type r = Verification \<longrightarrow>
        normalize_email R (otp_email r) \<in> set (map email (users S)))"

text \<open>The codes for an e-mail and a purpose that the clock has not yet passed.\<close>

definition active_codes :: "int \<Rightarrow> string \<Rightarrow> otp_type \<Rightarrow> state \<Rightarrow> otp list" where
  "active_codes now e t S =
     filter (\<lambda>r. otp_email r = e \<and> otp_type r = t \<and> \<not> now > expiresAt r) (otps S)"

section \<open>Concrete libraries and states for the examples\<close>

text \<open>
  Stand-ins for the runtime and the libraries, used where a statement is evaluated at a
  concrete input. The two string functions below do on ASCII strings what the runtime's
  do, and the examples use ASCII strings only: white space is the bytes 9 to 13 and 32,
  and the letters \<^verbatim>\<open>A-Z\<close> go to \<^verbatim>\<open>a-z\<close>. The digest is the password behind a fixed
  prefix, and a token is the secret followed by the role.
\<close>

definition is_space :: "char \<Rightarrow> bool" where
  "is_space c \<longleftrightarrow>
     (let n = (of_char c :: nat) in (9 \<le> n \<and> n \<le> 13) \<or> n = 32)"

definition ascii_trim :: "string \<Rightarrow> string" where
  "ascii_trim s = rev (dropWhile is_space (rev (dropWhile is_space s)))"

definition lower_char :: "char \<Rightarrow> char" where
  "lower_char c =
     (let n = (of_char c :: nat) in if 65 \<le> n \<and> n \<le> 90 then char_of (n + 32) else c)"

definition ascii_toLowerCase :: "string \<Rightarrow> string" where
  "ascii_toLowerCase s = map lower_char s"

definition ascii_runtime :: runtime where
  "ascii_runtime = \<lparr>js_toLowerCase = ascii_toLowerCase, js_trim = ascii_trim\<rparr>"

definition test_libs :: libs where
  "test_libs =
     \<lparr>bcrypt_hash = (\<lambda>p r. ''$2b$10$'' @ p),
      bcrypt_compare = (\<lambda>p h. h = ''$2b$10$'' @ p),
      jwt_sign = (\<lambda>s k t. k @ ''.'' @ session_role s),
      jwt_verify = (\<lambda>t k now. if take (length k + 1) t = k @ ''.''
                      then Some \<lparr>userId = 0, session_role = drop (length k + 1) t\<rparr>
                      else None),
      env_JWT_SECRET = None\<rparr>"

definition signed_up_state :: state where
  "signed_up_state =
     run ascii_runtime [(test_libs, 0, Signup ''Ann'' ''a@x.com'' ''secret1'' None)] init_state"

definition verified_state :: state where
  "verified_state =
     run ascii_runtime [(test_libs, 0, Signup ''Ann'' ''a@x.com'' ''secret1'' None),
          (test_libs, 5, VerifyOtp ''a@x.com'' ''123456'')] init_state"

definition reset_requested_state :: state where
  "reset_requested_state =
     run ascii_runtime [(test_libs, 0, Signup ''Ann'' ''a@x.com'' ''secret1'' None),
          (test_libs, 5, VerifyOtp ''a@x.com'' ''123456''),
          (test_libs, 6, ForgotPassword ''a@x.com'')] init_state"

definition dark_mode_only :: preferences_patch where
  "dark_mode_only =
     \<lparr>patch_notificationsEnabled = None, patch_darkMode = Some True,
      patch_newsletterSubscribed = None\<rparr>"

text \<open>Runs used in the examples.\<close>

definition signed_up :: "(libs \<times> int \<times> event) list" where
  "signed_up = [(test_libs, 0, Signup ''Ann'' ''a@x.com'' ''secret1'' None)]"

definition reset_requested :: "(libs \<times> int \<times> event) list" where
  "reset_requested =
     [(test_libs, 0, Signup ''Ann'' ''a@x.com'' ''secret1'' None),
      (test_libs, 5, VerifyOtp ''a@x.com'' ''123456''),
      (test_libs, 6, ForgotPassword ''a@x.com'')]"

definition reset_requested_twice :: "(libs \<times> int \<times> event) list" where
  "reset_requested_twice =
     [(test_libs, 0, Signup ''Ann'' ''a@x.com'' ''secret1'' None),
      (test_libs, 6, ForgotPassword ''a@x.com''),
      (test_libs, 8, ForgotPassword ''a@x.com'')]"

definition two_spellings :: "(libs \<times> int \<times> event) list" where
  "two_spellings =
     [(test_libs, 0, Signup ''Ann'' ''a@x.com'' ''secret1'' None),
      (test_libs, 5, VerifyOtp ''a@x.com'' ''123456''),
      (test_libs, 6, ForgotPassword ''a@x.com''),
      (test_libs, 7, ForgotPassword ''A@x.com'')]"

section \<open>Properties of signup\<close>

lemma signup_duplicate:
  "findOne_user R S em = Some u \<Longrightarrow> signup R L now S nm em pw rl = (duplicate_email, S)"
  by (simp add: signup_def duplicate_email_def)

lemma signup_invalid:
  "findOne_user R S em = None \<Longrightarrow>
   validate_user (new_user R (next_id S) nm em (bcrypt_hash L pw 10) (role_or_user rl)) \<noteq> [] \<Longrightarrow>
   status (fst (signup R L now S nm em pw rl)) = 500 \<and> snd (signup R L now S nm em pw rl) = S"
  by (simp add: signup_def Let_def split: list.splits)

lemma signup_created:
  "findOne_user R S em = None \<Longrightarrow>
   validate_user (new_user R (next_id S) nm em (bcrypt_hash L pw 10) (role_or_user rl)) = [] \<Longrightarrow>
   signup R L now S nm em pw rl =
     (created (next_id S),
      S\<lparr>users := users S @ [new_user R (next_id S) nm em (bcrypt_hash L pw 10) (role_or_user rl)],
        otps := otps S @ [verification_otp (Suc (next_id S)) em now],
        next_id := Suc (Suc (next_id S))\<rparr>)"
  by (simp add: signup_def Let_def created_def verification_otp_def new_user_def)

lemma signup_201:
  "status (fst (signup R L now S nm em pw rl)) = 201 \<Longrightarrow>
   findOne_user R S em = None \<and>
   validate_user (new_user R (next_id S) nm em (bcrypt_hash L pw 10) (role_or_user rl)) = []"
  by (simp add: signup_def Let_def json_def split: option.splits list.splits)

lemma find_snoc: "find P xs = None \<Longrightarrow> P x \<Longrightarrow> find P (xs @ [x]) = Some x"
  by (induction xs) (auto split: if_splits)

lemma signup_then_find:
  assumes "status (fst (signup R L now S nm em pw rl)) = 201"
  shows "findOne_user R (snd (signup R L now S nm em pw rl)) em =
           Some (new_user R (next_id S) nm em (bcrypt_hash L pw 10) (role_or_user rl))"
proof -
  from signup_201 [OF assms]
  have a: "findOne_user R S em = None"
    and b: "validate_user
              (new_user R (next_id S) nm em (bcrypt_hash L pw 10) (role_or_user rl)) = []"
    by simp_all
  have "email (new_user R (next_id S) nm em (bcrypt_hash L pw 10) (role_or_user rl)) =
          normalize_email R em"
    by (simp add: new_user_def)
  with a show ?thesis
    unfolding signup_created [OF a b] findOne_user_def
    by (simp add: find_snoc)
qed

text \<open>
  C6 as stated fails: a fresh e-mail alone does not make signup create a user, since
  \<^verbatim>\<open>User.create\<close> validates the document first. Here the e-mail is fresh and does
  not match the schema's pattern; the handler does not answer 201 and stores nothing.
\<close>

theorem signup_contract_counterexample:
  "findOne_user ascii_runtime init_state ''not-an-email'' = None \<and>
   status (fst (signup ascii_runtime test_libs 0 init_state
                  ''Ann'' ''not-an-email'' ''secret1'' None)) \<noteq> 201 \<and>
   snd (signup ascii_runtime test_libs 0 init_state
          ''Ann'' ''not-an-email'' ''secret1'' None) = init_state"
  by code_simp

text \<open>
  C6, amended. When a user with the e-mail (after the schema's setters) exists, signup
  answers 400 and leaves the state as it is. When none exists and the new document passes
  the validators of the User schema, signup answers 201 with the new user's id, appends
  the user (digest of the password, \<open>isVerified = False\<close>) and appends a verification
  code that expires ten minutes after the request. When none exists and the document
  fails validation, signup stores nothing: no user and no code. This holds on every
  runtime, that is for whatever \<^verbatim>\<open>trim\<close> and \<^verbatim>\<open>toLowerCase\<close> do.
\<close>

theorem signup_contract:
  fixes R :: runtime and S :: state and L :: libs and nm em pw :: string
    and rl :: "string option"
  defines "newUser \<equiv> new_user R (next_id S) nm em (bcrypt_hash L pw 10) (role_or_user rl)"
  shows
  "(findOne_user R S em \<noteq> None \<longrightarrow> signup R L now S nm em pw rl = (duplicate_email, S)) \<and>
   (findOne_user R S em = None \<and> validate_user newUser = [] \<longrightarrow>
      fst (signup R L now S nm em pw rl) = created (next_id S) \<and>
      users (snd (signup R L now S nm em pw rl)) = users S @ [newUser] \<and>
      otps (snd (signup R L now S nm em pw rl)) =
        otps S @ [verification_otp (Suc (next_id S)) em now] \<and>
      user_id newUser = next_id S \<and>
      password newUser = bcrypt_hash L pw 10 \<and>
      \<not> isVerified newUser \<and>
      otp_type (verification_otp (Suc (next_id S)) em now) = Verification \<and>
      expiresAt (verification_otp (Suc (next_id S)) em now) = now + 10 * 60 * 1000) \<and>
   (findOne_user R S em = None \<and> validate_user newUser \<noteq> [] \<longrightarrow>
      snd (signup R L now S nm em pw rl) = S)"
proof (intro conjI impI)
  assume "findOne_user R S em \<noteq> None"
  then show "signup R L now S nm em pw rl = (duplicate_email, S)"
    by (auto simp: signup_duplicate)
qed (simp_all add: newUser_def signup_created signup_invalid,
     simp_all add: new_user_def verification_otp_def)

theorem signup_contract_witness:
  "signup ascii_runtime test_libs 9 signed_up_state ''Bob'' ''A@X.com '' ''hunter22'' None =
     (duplicate_email, signed_up_state) \<and>
   fst (signup ascii_runtime test_libs 0 init_state ''Ann'' ''a@x.com'' ''secret1'' None) = created 0 \<and>
   map email (users signed_up_state) = [''a@x.com''] \<and>
   map password (users signed_up_state) = [''$2b$10$secret1''] \<and>
   map isVerified (users signed_up_state) = [False] \<and>
   otps signed_up_state = [verification_otp 1 ''a@x.com'' 0] \<and>
   expiresAt (verification_otp 1 ''a@x.com'' 0) = 600000 \<and>
   snd (signup ascii_runtime test_libs 0 init_state
          ''Ann'' ''not-an-email'' ''secret1'' None) = init_state"
proof -
  have d: "findOne_user ascii_runtime signed_up_state ''A@X.com '' \<noteq> None"
    by code_simp
  have f: "findOne_user ascii_runtime init_state ''a@x.com'' = None"
    and g: "findOne_user ascii_runtime init_state ''not-an-email'' = None"
    by code_simp+
  have v: "validate_user (new_user ascii_runtime (next_id init_state) ''Ann'' ''a@x.com''
             (bcrypt_hash test_libs ''secret1'' 10) (role_or_user None)) = []"
    by code_simp
  have w: "validate_user (new_user ascii_runtime (next_id init_state) ''Ann'' ''not-an-email''
             (bcrypt_hash test_libs ''secret1'' 10) (role_or_user None)) \<noteq> []"
    by code_simp
  have n: "next_id init_state = 0"
    by code_simp
  have s: "signed_up_state = snd (signup ascii_runtime test_libs 0 init_state ''Ann'' ''a@x.com'' ''secret1'' None)"
    by (simp add: signed_up_state_def)
  note a = signup_contract [where R = ascii_runtime and S = signed_up_state and em = "''A@X.com ''" and L = test_libs
      and now = 9 and nm = "''Bob''" and pw = "''hunter22''" and rl = None]
  note b = signup_contract [where R = ascii_runtime and S = init_state and em = "''a@x.com''" and L = test_libs
      and now = 0 and nm = "''Ann''" and pw = "''secret1''" and rl = None]
  note c = signup_contract [where R = ascii_runtime and S = init_state and em = "''not-an-email''" and L = test_libs
      and now = 0 and nm = "''Ann''" and pw = "''secret1''" and rl = None]
  have 1: "signup ascii_runtime test_libs 9 signed_up_state ''Bob'' ''A@X.com '' ''hunter22'' None =
     (duplicate_email, signed_up_state)"
    using a d by blast
  have 2: "fst (signup ascii_runtime test_libs 0 init_state ''Ann'' ''a@x.com'' ''secret1'' None) = created 0"
    using b f v n by simp
  have 3: "snd (signup ascii_runtime test_libs 0 init_state
                  ''Ann'' ''not-an-email'' ''secret1'' None) = init_state"
    using c g w by blast
  have 4: "map email (users signed_up_state) = [''a@x.com''] \<and>
   map password (users signed_up_state) = [''$2b$10$secret1''] \<and>
   map isVerified (users signed_up_state) = [False] \<and>
   otps signed_up_state = [verification_otp 1 ''a@x.com'' 0] \<and>
   expiresAt (verification_otp 1 ''a@x.com'' 0) = 600000"
    by code_simp
  from 1 2 3 4 show ?thesis by simp
qed

text \<open>
  C10 as stated fails in its last part: the default applies to every falsy value of
  \<^verbatim>\<open>role\<close>, not only to an absent one. Here the request carries \<^verbatim>\<open>role: ""\<close> and the
  stored role is \<^verbatim>\<open>user\<close>.
\<close>

theorem signup_role_counterexample:
  "status (fst (signup ascii_runtime test_libs 0 init_state ''Ann'' ''a@x.com'' ''secret1'' (Some ''''))) = 201 \<and>
   map role (users (snd (signup ascii_runtime test_libs 0 init_state ''Ann'' ''a@x.com'' ''secret1'' (Some '''')))) =
     [''user'']"
  by code_simp

text \<open>
  C10, amended. Signup takes no session: whenever it creates a user, the stored role is
  the role of the request, and it is \<^verbatim>\<open>user\<close> by default when the field is absent or
  the empty string. A request with the role \<^verbatim>\<open>admin\<close> creates an administrator. The
  stored role is \<^verbatim>\<open>user\<close> exactly when the request gives none, the empty string or
  \<^verbatim>\<open>user\<close>; a created user's role is one of the two of the schema's enumeration.
\<close>

theorem signup_role:
  fixes R :: runtime and S :: state and L :: libs and now :: int and nm em pw :: string
    and rl :: "string option"
  defines "S' \<equiv> snd (signup R L now S nm em pw rl)"
  assumes "status (fst (signup R L now S nm em pw rl)) = 201"
  shows "users S' = users S @ [last (users S')] \<and>
         findOne_user R S' em = Some (last (users S')) \<and>
         role (last (users S')) =
           (case rl of None \<Rightarrow> ''user'' | Some r \<Rightarrow> if r = [] then ''user'' else r) \<and>
         (rl = Some ''admin'' \<longrightarrow> role (last (users S')) = ''admin'') \<and>
         (role (last (users S')) = ''user'' \<longleftrightarrow>
            rl = None \<or> rl = Some [] \<or> rl = Some ''user'') \<and>
         (role (last (users S')) = ''user'' \<or> role (last (users S')) = ''admin'')"
proof -
  let ?d = "new_user R (next_id S) nm em (bcrypt_hash L pw 10) (role_or_user rl)"
  from signup_201 [OF assms(2)]
  have a: "findOne_user R S em = None" and b: "validate_user ?d = []"
    by simp_all
  have u: "users S' = users S @ [?d]"
    by (simp add: S'_def signup_created [OF a b])
  then have l: "last (users S') = ?d"
    by simp
  have f: "findOne_user R S' em = Some ?d"
    unfolding S'_def by (rule signup_then_find [OF assms(2)])
  have r: "role ?d = role_or_user rl"
    by (simp add: new_user_def)
  have e: "role ?d = ''user'' \<or> role ?d = ''admin''"
    using b by (auto simp: validate_user_def split: if_splits)
  show ?thesis
    using u f e unfolding l r
    by (auto simp: role_or_user_def split: option.splits)
qed

theorem signup_role_witness:
  "status (fst (signup ascii_runtime test_libs 0 init_state ''Eve'' ''eve@x.com'' ''secret1'' (Some ''admin''))) = 201 \<and>
   role (last (users (snd (signup ascii_runtime test_libs 0 init_state ''Eve'' ''eve@x.com'' ''secret1''
     (Some ''admin''))))) = ''admin''"
proof -
  have h: "status (fst (signup ascii_runtime test_libs 0 init_state ''Eve'' ''eve@x.com'' ''secret1''
             (Some ''admin''))) = 201"
    by code_simp
  from signup_role [OF h] h show ?thesis
    by simp
qed

section \<open>Properties of login\<close>

lemma login_no_user:
  "findOne_user R S e = None \<Longrightarrow> login R L now S e p = (invalid_credentials, S)"
  by (simp add: login_def invalid_credentials_def)

lemma login_wrong_password:
  "findOne_user R S e = Some u \<Longrightarrow> isVerified u \<Longrightarrow> \<not> bcrypt_compare L p (password u) \<Longrightarrow>
   login R L now S e p = (invalid_credentials, S)"
  by (simp add: login_def invalid_credentials_def)

lemma login_unverified:
  "findOne_user R S e = Some u \<Longrightarrow> \<not> isVerified u \<Longrightarrow> login R L now S e p = (not_verified, S)"
  by (simp add: login_def not_verified_def)

lemma login_success:
  "findOne_user R S e = Some u \<Longrightarrow> isVerified u \<Longrightarrow> bcrypt_compare L p (password u) \<Longrightarrow>
   status (fst (login R L now S e p)) = 200 \<and> snd (login R L now S e p) = S"
  by (simp add: login_def)

text \<open>
  C3. In a state where \<open>e\<close> is the e-mail of a verified user and \<open>p\<close> does not match
  that user's digest, and no user has the e-mail \<open>e'\<close>, \<open>login e p\<close> and
  \<open>login e' q\<close> give the same response (status 401, the same message, no payload, no
  cookie) and leave the state as it is, whatever \<open>q\<close> and the two clock readings are.
  The time a request takes is outside the model.
\<close>

theorem login_invalid_credentials_indistinguishable:
  assumes "findOne_user R S e = Some u" and "isVerified u"
    and "\<not> bcrypt_compare L p (password u)" and "findOne_user R S e' = None"
  shows "login R L now S e p = (invalid_credentials, S) \<and>
         login R L now' S e' q = (invalid_credentials, S) \<and>
         login R L now S e p = login R L now' S e' q"
  using assms by (simp add: login_no_user login_wrong_password)

theorem login_invalid_credentials_indistinguishable_witness:
  "login ascii_runtime test_libs 7 verified_state ''a@x.com'' ''wrong'' =
     (invalid_credentials, verified_state) \<and>
   login ascii_runtime test_libs 9 verified_state ''nouser@x.com'' ''anything'' =
     (invalid_credentials, verified_state) \<and>
   login ascii_runtime test_libs 7 verified_state ''a@x.com'' ''wrong'' =
     login ascii_runtime test_libs 9 verified_state ''nouser@x.com'' ''anything''"
proof -
  have h1: "findOne_user ascii_runtime verified_state ''a@x.com'' = Some (hd (users verified_state))"
    by code_simp
  have h2: "isVerified (hd (users verified_state))"
    by code_simp
  have h3: "\<not> bcrypt_compare test_libs ''wrong'' (password (hd (users verified_state)))"
    by code_simp
  have h4: "findOne_user ascii_runtime verified_state ''nouser@x.com'' = None"
    by code_simp
  show ?thesis
    by (rule login_invalid_credentials_indistinguishable [OF h1 h2 h3 h4])
qed

text \<open>
  C5. Whenever the user found for an e-mail is not verified, login answers 403 for every
  password and every behaviour of the libraries: the comparison of the password is not
  reached. In particular this is so in the state a successful signup leaves, for the
  e-mail of that signup.
\<close>

theorem login_before_verification:
  "(findOne_user R S em = Some u \<and> \<not> isVerified u \<longrightarrow> login R L now S em p = (not_verified, S)) \<and>
   (status (fst (signup R L0 t0 S0 nm em0 pw rl)) = 201 \<longrightarrow>
      login R L now (snd (signup R L0 t0 S0 nm em0 pw rl)) em0 p =
        (not_verified, snd (signup R L0 t0 S0 nm em0 pw rl)))"
proof (intro conjI impI)
  assume "findOne_user R S em = Some u \<and> \<not> isVerified u"
  then show "login R L now S em p = (not_verified, S)"
    by (simp add: login_unverified)
next
  assume a: "status (fst (signup R L0 t0 S0 nm em0 pw rl)) = 201"
  have "\<not> isVerified (new_user R (next_id S0) nm em0 (bcrypt_hash L0 pw 10) (role_or_user rl))"
    by (simp add: new_user_def)
  with signup_then_find [OF a]
  show "login R L now (snd (signup R L0 t0 S0 nm em0 pw rl)) em0 p =
        (not_verified, snd (signup R L0 t0 S0 nm em0 pw rl))"
    by (rule login_unverified)
qed

theorem login_before_verification_witness:
  "bcrypt_compare test_libs ''secret1'' (password (hd (users signed_up_state))) \<and>
   login ascii_runtime test_libs 3 signed_up_state ''a@x.com'' ''secret1'' = (not_verified, signed_up_state) \<and>
   login ascii_runtime test_libs 3 signed_up_state ''a@x.com'' ''wrong'' = (not_verified, signed_up_state)"
proof -
  have h: "status (fst (signup ascii_runtime test_libs 0 init_state ''Ann'' ''a@x.com'' ''secret1'' None)) = 201"
    by code_simp
  have s: "signed_up_state = snd (signup ascii_runtime test_libs 0 init_state ''Ann'' ''a@x.com'' ''secret1'' None)"
    by (simp add: signed_up_state_def)
  have f: "findOne_user ascii_runtime signed_up_state ''a@x.com'' = Some (hd (users signed_up_state)) \<and>
           \<not> isVerified (hd (users signed_up_state))"
    by code_simp
  have c: "bcrypt_compare test_libs ''secret1'' (password (hd (users signed_up_state)))"
    by code_simp
  have 1: "login ascii_runtime test_libs 3 signed_up_state ''a@x.com'' ''secret1'' = (not_verified, signed_up_state)"
    using login_before_verification [where R = ascii_runtime and ?L0.0 = test_libs and ?t0.0 = 0 and ?S0.0 = init_state
        and nm = "''Ann''" and ?em0.0 = "''a@x.com''" and pw = "''secret1''" and rl = None
        and L = test_libs and now = 3 and p = "''secret1''"] h
    unfolding s by blast
  have 2: "login ascii_runtime test_libs 3 signed_up_state ''a@x.com'' ''wrong'' = (not_verified, signed_up_state)"
    using login_before_verification [where R = ascii_runtime and S = signed_up_state and em = "''a@x.com''"
        and u = "hd (users signed_up_state)" and L = test_libs and now = 3 and p = "''wrong''"] f
    by blast
  from c 1 2 show ?thesis by simp
qed

section \<open>Properties of the password reset\<close>

lemma forgot_password_response:
  "fst (forgot_password R now S em) =
     (if findOne_user R S em = None
      then json 200 ''If an account exists with this email, we have sent a reset code.''
      else json 200 ''Reset code sent to your email.'')"
  by (simp add: forgot_password_def split: option.splits)

lemma forgot_password_state:
  "snd (forgot_password R now S em) =
     (if findOne_user R S em = None then S
      else upsert_reset em ''123456'' (now + 15 * 60 * 1000) S)"
  by (simp add: forgot_password_def split: option.splits)

text \<open>
  C1, the behaviour of the code: both responses have the status 200, and their messages
  differ. The empty database and a database with the user \<^verbatim>\<open>a@x.com\<close> are told apart
  by the response to the same request.
\<close>

theorem forgot_password_reveals_existence:
  "findOne_user ascii_runtime init_state ''a@x.com'' = None \<and>
   findOne_user ascii_runtime verified_state ''a@x.com'' \<noteq> None \<and>
   fst (forgot_password ascii_runtime 6 init_state ''a@x.com'') =
     json 200 ''If an account exists with this email, we have sent a reset code.'' \<and>
   fst (forgot_password ascii_runtime 6 verified_state ''a@x.com'') = json 200 ''Reset code sent to your email.'' \<and>
   fst (forgot_password ascii_runtime 6 init_state ''a@x.com'') \<noteq> fst (forgot_password ascii_runtime 6 verified_state ''a@x.com'')"
  by code_simp

lemma verify_otp_expired:
  "findOne_otp S em cd Verification = Some r \<Longrightarrow> now > expiresAt r \<Longrightarrow>
   verify_otp R now S em cd = (json 400 ''Verification code has expired'', deleteOne_otp (otp_id r) S) \<and>
   users (snd (verify_otp R now S em cd)) = users S"
  by (simp add: verify_otp_def deleteOne_otp_def)

text \<open>
  C2, the behaviour of the code: the verification handler refuses a code whose time has
  passed (\<open>verify_otp_expired\<close>), the reset handler does not look at \<open>expiresAt\<close>. The
  reset code below expired at 900006; at 1000000 it is accepted and the password is
  replaced.
\<close>

theorem reset_password_accepts_expired_code:
  "map expiresAt (otps reset_requested_state) = [900006] \<and>
   findOne_otp reset_requested_state ''a@x.com'' ''123456'' Reset \<noteq> None \<and>
   map password (users reset_requested_state) = [''$2b$10$secret1''] \<and>
   status (fst (reset_password ascii_runtime test_libs 1000000 reset_requested_state
                  ''a@x.com'' ''123456'' ''newpass1'')) = 200 \<and>
   map password (users (snd (reset_password ascii_runtime test_libs 1000000 reset_requested_state
                               ''a@x.com'' ''123456'' ''newpass1''))) = [''$2b$10$newpass1'']"
  by code_simp

section \<open>Runs keep the invariant\<close>

lemma findOne_user_None_iff:
  "findOne_user R S e = None \<longleftrightarrow> normalize_email R e \<notin> set (map email (users S))"
  by (force simp: findOne_user_def find_None_iff)

lemma map_update_first:
  "(\<And>x. g (f x) = g x) \<Longrightarrow> map g (update_first P f xs) = map g xs"
  by (induction xs) auto

lemma set_delete_first: "set (delete_first P xs) \<subseteq> set xs"
  by (induction xs) auto

lemma distinct_map_delete_first:
  "distinct (map g xs) \<Longrightarrow> distinct (map g (delete_first P xs))"
proof (induction xs)
  case Nil
  then show ?case by simp
next
  case (Cons x xs)
  have "g ` set (delete_first P xs) \<subseteq> g ` set xs"
    using set_delete_first [of P xs] by blast
  with Cons show ?case by auto
qed

lemma delete_first_removes:
  "distinct (map g xs) \<Longrightarrow> r \<in> set xs \<Longrightarrow> r \<notin> set (delete_first (\<lambda>x. g x = g r) xs)"
proof (induction xs)
  case Nil
  then show ?case by simp
next
  case (Cons x xs)
  show ?case
  proof (cases "g x = g r")
    case True
    with Cons.prems have "r \<notin> set xs"
      by (auto simp: image_iff)
    with True show ?thesis by simp
  next
    case False
    with Cons show ?thesis by auto
  qed
qed

lemma invariant_init: "store_invariant R init_state"
  by (simp add: store_invariant_def init_state_def)

lemma invariant_users_update:
  assumes "store_invariant R S" and "\<And>x. email (f x) = email x"
  shows "store_invariant R (S\<lparr>users := update_first P f (users S)\<rparr>)"
  using assms by (simp add: store_invariant_def map_update_first)

lemma invariant_deleteOne_otp:
  assumes "store_invariant R S"
  shows "store_invariant R (deleteOne_otp i S)"
proof -
  have sub: "set (delete_first (\<lambda>r. otp_id r = i) (otps S)) \<subseteq> set (otps S)"
    by (rule set_delete_first)
  from assms show ?thesis
    unfolding store_invariant_def deleteOne_otp_def
    using sub by (auto simp: distinct_map_delete_first)
qed

lemma invariant_ttl_sweep:
  "store_invariant R S \<Longrightarrow> store_invariant R (ttl_sweep now S)"
  by (auto simp: store_invariant_def ttl_sweep_def distinct_map_filter)

lemma invariant_signup:
  assumes "store_invariant R S"
  shows "store_invariant R (snd (signup R L now S nm em pw rl))"
proof (cases "status (fst (signup R L now S nm em pw rl)) = 201")
  case True
  let ?d = "new_user R (next_id S) nm em (bcrypt_hash L pw 10) (role_or_user rl)"
  from signup_201 [OF True]
  have a: "findOne_user R S em = None" and b: "validate_user ?d = []"
    by simp_all
  from a have fresh: "normalize_email R em \<notin> set (map email (users S))"
    by (simp add: findOne_user_None_iff)
  with assms have nokey: "(em, Verification) \<notin> set (map otp_key (otps S))"
    by (auto simp: store_invariant_def otp_key_def)
  from assms have noid: "Suc (next_id S) \<notin> set (map otp_id (otps S))"
    by (auto simp: store_invariant_def)
  have e: "email ?d = normalize_email R em"
    by (simp add: new_user_def)
  from assms nokey noid show ?thesis
    unfolding signup_created [OF a b]
    by (auto simp: store_invariant_def verification_otp_def otp_key_def e less_Suc_eq)
next
  case False
  then have "snd (signup R L now S nm em pw rl) = S"
    by (simp add: signup_def Let_def json_def split: option.splits list.splits)
  with assms show ?thesis by simp
qed

lemma invariant_verify_otp:
  assumes "store_invariant R S"
  shows "store_invariant R (snd (verify_otp R now S em cd))"
  using assms
  by (auto simp: verify_otp_def invariant_deleteOne_otp invariant_users_update
      split: option.splits)

lemma invariant_reset_password:
  assumes "store_invariant R S"
  shows "store_invariant R (snd (reset_password R L now S em cd pw))"
  using assms
  by (auto simp: reset_password_def Let_def invariant_deleteOne_otp invariant_users_update
      split: option.splits)

lemma invariant_login: "snd (login R L now S em pw) = S"
  by (simp add: login_def split: option.splits)

lemma invariant_update_password:
  assumes "store_invariant R S"
  shows "store_invariant R (snd (update_password L now S tok cur new))"
  using assms
  by (auto simp: update_password_def Let_def invariant_users_update split: option.splits)

lemma email_set_profile: "email (set_profile R nm bi ph im u) = email u"
  by (simp add: set_profile_def Let_def split: option.splits)

lemma email_set_preferences: "email (set_preferences p u) = email u"
  by (simp add: set_preferences_def Let_def)

lemma invariant_update_profile:
  assumes "store_invariant R S"
  shows "store_invariant R (snd (update_profile R L now S tok nm bi ph im))"
  using assms
  by (auto simp: update_profile_def Let_def invariant_users_update email_set_profile
      split: option.splits)

lemma invariant_update_settings:
  assumes "store_invariant R S"
  shows "store_invariant R (snd (update_settings L now S tok p))"
  using assms
  by (auto simp: update_settings_def Let_def invariant_users_update email_set_preferences
      split: option.splits)

lemma invariant_upsert_reset:
  assumes "store_invariant R S"
  shows "store_invariant R (upsert_reset em cd ex S)"
proof (cases "find (\<lambda>r. otp_email r = em \<and> otp_type r = Reset) (otps S)")
  case None
  then have "(em, Reset) \<notin> set (map otp_key (otps S))"
    by (auto simp: find_None_iff otp_key_def)
  moreover from assms have "next_id S \<notin> set (map otp_id (otps S))"
    by (auto simp: store_invariant_def)
  ultimately show ?thesis
    using assms None
    by (auto simp: upsert_reset_def store_invariant_def otp_key_def less_Suc_eq)
next
  case (Some r)
  let ?f = "\<lambda>r. r\<lparr>otp_code := cd, expiresAt := ex\<rparr>"
  let ?xs = "update_first (\<lambda>r. otp_email r = em \<and> otp_type r = Reset) ?f (otps S)"
  have k: "map otp_key ?xs = map otp_key (otps S)"
    by (rule map_update_first) (simp add: otp_key_def)
  have i: "map otp_id ?xs = map otp_id (otps S)"
    by (rule map_update_first) simp
  have t: "map (\<lambda>r. (otp_id r, otp_type r, otp_email r)) ?xs =
           map (\<lambda>r. (otp_id r, otp_type r, otp_email r)) (otps S)"
    by (rule map_update_first) simp
  have m: "(\<forall>r \<in> set ?xs. Q (otp_id r, otp_type r, otp_email r)) \<longleftrightarrow>
           (\<forall>r \<in> set (otps S). Q (otp_id r, otp_type r, otp_email r))" for Q
  proof -
    have "(\<forall>r \<in> set ?xs. Q (otp_id r, otp_type r, otp_email r)) \<longleftrightarrow>
          (\<forall>y \<in> set (map (\<lambda>r. (otp_id r, otp_type r, otp_email r)) ?xs). Q y)"
      by simp
    also have "\<dots> \<longleftrightarrow> (\<forall>y \<in> set (map (\<lambda>r. (otp_id r, otp_type r, otp_email r)) (otps S)). Q y)"
      by (simp only: t)
    also have "\<dots> \<longleftrightarrow> (\<forall>r \<in> set (otps S). Q (otp_id r, otp_type r, otp_email r))"
      by simp
    finally show ?thesis .
  qed
  from assms have 1: "\<forall>r \<in> set ?xs. otp_id r < next_id S"
    using m [of "\<lambda>(i, t, e). i < next_id S"] by (simp add: store_invariant_def)
  from assms have 2: "\<forall>r \<in> set ?xs. otp_type r = Verification \<longrightarrow>
        normalize_email R (otp_email r) \<in> set (map email (users S))"
    using m [of "\<lambda>(i, t, e). t = Verification \<longrightarrow> normalize_email R e \<in> set (map email (users S))"]
    by (simp add: store_invariant_def)
  from assms 1 2 show ?thesis
    using Some by (simp add: upsert_reset_def store_invariant_def k i)
qed

lemma invariant_forgot_password:
  assumes "store_invariant R S"
  shows "store_invariant R (snd (forgot_password R now S em))"
  using assms by (simp add: forgot_password_def invariant_upsert_reset split: option.splits)

lemma invariant_step:
  "store_invariant R S \<Longrightarrow> store_invariant R (step R L now ev S)"
  by (cases ev)
    (simp_all add: invariant_signup invariant_verify_otp invariant_login
      invariant_forgot_password invariant_reset_password invariant_update_password
      invariant_update_profile invariant_update_settings invariant_ttl_sweep)

lemma invariant_run:
  "store_invariant R S \<Longrightarrow> store_invariant R (run R evs S)"
  by (induction evs arbitrary: S) (auto simp: invariant_step)

lemma invariant_reachable: "store_invariant R (run R evs init_state)"
  by (rule invariant_run [OF invariant_init])

lemma distinct_map_filter_le_1:
  "distinct (map g xs) \<Longrightarrow> length (filter (\<lambda>x. g x = k \<and> Q x) xs) \<le> 1"
proof (induction xs)
  case Nil
  then show ?case by simp
next
  case (Cons x xs)
  show ?case
  proof (cases "g x = k")
    case True
    with Cons.prems have "\<forall>y \<in> set xs. g y \<noteq> k"
      by (auto simp: image_iff)
    then have "filter (\<lambda>x. g x = k \<and> Q x) xs = []"
      by (auto simp: filter_empty_conv)
    then show ?thesis by simp
  next
    case False
    with Cons show ?thesis by simp
  qed
qed

section \<open>One code per e-mail and purpose\<close>

lemma image_update_first:
  assumes "\<And>x. g (f x) = g x"
  shows "g ` set (update_first P f xs) = g ` set xs"
proof -
  have "set (map g (update_first P f xs)) = set (map g xs)"
    by (simp only: map_update_first [of g f, OF assms])
  then show ?thesis by simp
qed

lemma emails_step: "set (map email (users S)) \<subseteq> set (map email (users (step R L now ev S)))"
proof (cases ev)
  case (Signup nm em pw rl)
  then show ?thesis
    by (auto simp: signup_def Let_def split: option.splits list.splits)
next
  case (VerifyOtp em cd)
  then show ?thesis
    by (simp add: verify_otp_def deleteOne_otp_def image_update_first split: option.splits)
next
  case (Login em pw)
  then show ?thesis by (simp add: invariant_login)
next
  case (ForgotPassword em)
  then show ?thesis
    by (simp add: forgot_password_def upsert_reset_def split: option.splits)
next
  case (ResetPassword em cd pw)
  then show ?thesis
    by (simp add: reset_password_def Let_def deleteOne_otp_def image_update_first
        split: option.splits)
next
  case (UpdatePassword tok cur new)
  then show ?thesis
    by (simp add: update_password_def Let_def image_update_first split: option.splits)
next
  case (UpdateProfile tok nm bi ph im)
  then show ?thesis
    by (simp add: update_profile_def Let_def image_update_first email_set_profile
        split: option.splits)
next
  case (UpdateSettings tok p)
  then show ?thesis
    by (simp add: update_settings_def Let_def image_update_first email_set_preferences
        split: option.splits)
next
  case TtlSweep
  then show ?thesis by (simp add: ttl_sweep_def)
qed

lemma emails_run: "set (map email (users S)) \<subseteq> set (map email (users (run R evs S)))"
proof (induction evs arbitrary: S)
  case Nil
  show ?case by simp
next
  case (Cons a evs)
  obtain L now ev where a: "a = (L, now, ev)"
    by (cases a)
  have "set (map email (users S)) \<subseteq> set (map email (users (step R L now ev S)))"
    by (rule emails_step)
  also have "\<dots> \<subseteq> set (map email (users (run R evs (step R L now ev S))))"
    by (rule Cons.IH)
  finally show ?case by (simp add: a)
qed


lemma signup_once:
  assumes "status (fst (signup R L now S nm em pw rl)) = 201"
  shows "signup R L' now' (run R evs (snd (signup R L now S nm em pw rl))) nm' em pw' rl' =
           (duplicate_email, run R evs (snd (signup R L now S nm em pw rl)))"
proof -
  let ?S = "snd (signup R L now S nm em pw rl)"
  from signup_then_find [OF assms] have "findOne_user R ?S em \<noteq> None"
    by simp
  then have "normalize_email R em \<in> set (map email (users ?S))"
    by (simp add: findOne_user_None_iff)
  with emails_run [where S = "?S" and evs = evs and R = R] have "normalize_email R em \<in> set (map email (users (run R evs ?S)))"
    by blast
  then have "findOne_user R (run R evs ?S) em \<noteq> None"
    by (simp add: findOne_user_None_iff)
  then obtain u where "findOne_user R (run R evs ?S) em = Some u"
    by auto
  then show ?thesis by (rule signup_duplicate)
qed

text \<open>
  What holds per spelling. The e-mail of a code is the string the request carried, since
  the Otp schema has no setters. In the state after any run from the empty database
  (requests to the eight handlers and sweeps of the TTL index, in any order and at any
  clock readings), the store holds at most one code for such a string and a purpose,
  hence at most one that has not expired. A signup that succeeded for an e-mail makes
  every later signup with that e-mail fail with the duplicate response, so verification
  codes, which only signup creates, are created at most once per e-mail; reset codes are
  upserted (\<open>invariant_upsert_reset\<close>).
\<close>

theorem one_code_per_email_and_purpose:
  "length (filter (\<lambda>r. otp_email r = e \<and> otp_type r = t) (otps (run R evs init_state))) \<le> 1 \<and>
   length (active_codes now e t (run R evs init_state)) \<le> 1 \<and>
   (status (fst (signup R L t0 (run R evs init_state) nm em pw rl)) = 201 \<longrightarrow>
      signup R L' t1 (run R evs' (snd (signup R L t0 (run R evs init_state) nm em pw rl))) nm' em pw' rl' =
        (duplicate_email, run R evs' (snd (signup R L t0 (run R evs init_state) nm em pw rl))))"
proof -
  have d: "distinct (map otp_key (otps (run R evs init_state)))"
    using invariant_reachable [where evs = evs and R = R] by (simp add: store_invariant_def)
  have "length (filter (\<lambda>r. otp_key r = (e, t) \<and> Q r) (otps (run R evs init_state))) \<le> 1" for Q
    using d by (rule distinct_map_filter_le_1)
  then have c: "length (filter (\<lambda>r. (otp_email r = e \<and> otp_type r = t) \<and> Q r)
                  (otps (run R evs init_state))) \<le> 1" for Q
    by (simp add: otp_key_def)
  have 1: "length (filter (\<lambda>r. otp_email r = e \<and> otp_type r = t) (otps (run R evs init_state))) \<le> 1"
    using c [of "\<lambda>r. True"] by simp
  have 2: "length (active_codes now e t (run R evs init_state)) \<le> 1"
    using c [of "\<lambda>r. \<not> now > expiresAt r"] by (simp add: active_codes_def conj_assoc)
  from 1 2 show ?thesis
    by (simp add: signup_once)
qed

theorem one_code_per_email_and_purpose_witness:
  "length (filter (\<lambda>r. otp_email r = ''a@x.com'' \<and> otp_type r = Reset)
     (otps (run ascii_runtime reset_requested_twice init_state))) = 1 \<and>
   length (active_codes 9 ''a@x.com'' Reset (run ascii_runtime reset_requested_twice init_state)) \<le> 1 \<and>
   map expiresAt (otps (run ascii_runtime reset_requested_twice init_state)) = [600000, 900008] \<and>
   status (fst (signup ascii_runtime test_libs 0 (run ascii_runtime [] init_state) ''Ann'' ''a@x.com'' ''secret1'' None)) = 201 \<and>
   signup ascii_runtime test_libs 9
     (run ascii_runtime [(test_libs, 5, VerifyOtp ''a@x.com'' ''123456'')]
        (snd (signup ascii_runtime test_libs 0 (run ascii_runtime [] init_state) ''Ann'' ''a@x.com'' ''secret1'' None)))
     ''Bob'' ''a@x.com'' ''hunter22'' (Some ''admin'') =
   (duplicate_email,
    run ascii_runtime [(test_libs, 5, VerifyOtp ''a@x.com'' ''123456'')]
      (snd (signup ascii_runtime test_libs 0 (run ascii_runtime [] init_state) ''Ann'' ''a@x.com'' ''secret1'' None)))"
proof -
  have h: "status (fst (signup ascii_runtime test_libs 0 (run ascii_runtime [] init_state) ''Ann'' ''a@x.com'' ''secret1'' None)) = 201"
    by code_simp
  have c: "length (filter (\<lambda>r. otp_email r = ''a@x.com'' \<and> otp_type r = Reset)
     (otps (run ascii_runtime reset_requested_twice init_state))) = 1 \<and>
     map expiresAt (otps (run ascii_runtime reset_requested_twice init_state)) = [600000, 900008]"
    by code_simp
  note a = one_code_per_email_and_purpose [where R = ascii_runtime and evs = reset_requested_twice
      and e = "''a@x.com''" and t = Reset and now = 9]
  note b = one_code_per_email_and_purpose [where R = ascii_runtime and evs = "[]" and L = test_libs and ?t0.0 = 0
      and nm = "''Ann''" and em = "''a@x.com''" and pw = "''secret1''" and rl = None
      and L' = test_libs and ?t1.0 = 9 and evs' = "[(test_libs, 5, VerifyOtp ''a@x.com'' ''123456'')]"
      and nm' = "''Bob''" and pw' = "''hunter22''" and rl' = "Some ''admin''"]
  from a have 1: "length (active_codes 9 ''a@x.com'' Reset (run ascii_runtime reset_requested_twice init_state)) \<le> 1"
    by blast
  from b h have 2: "signup ascii_runtime test_libs 9
     (run ascii_runtime [(test_libs, 5, VerifyOtp ''a@x.com'' ''123456'')]
        (snd (signup ascii_runtime test_libs 0 (run ascii_runtime [] init_state) ''Ann'' ''a@x.com'' ''secret1'' None)))
     ''Bob'' ''a@x.com'' ''hunter22'' (Some ''admin'') =
   (duplicate_email,
    run ascii_runtime [(test_libs, 5, VerifyOtp ''a@x.com'' ''123456'')]
      (snd (signup ascii_runtime test_libs 0 (run ascii_runtime [] init_state) ''Ann'' ''a@x.com'' ''secret1'' None)))"
    by blast
  from h c 1 2 show ?thesis
    by blast
qed

text \<open>
  C8, the behaviour of the code: the invariant fails per e-mail address. Users are found
  by the normal form of the address (lower case, trimmed), codes by the spelling of the
  request. After reset requests for \<^verbatim>\<open>a@x.com\<close> and for \<^verbatim>\<open>A@x.com\<close> the one user
  \<^verbatim>\<open>a@x.com\<close> has two reset codes that have not expired, and the reset handler accepts
  either of them.
\<close>

theorem reset_codes_keyed_by_spelling:
  "map email (users (run ascii_runtime two_spellings init_state)) = [''a@x.com''] \<and>
   map (\<lambda>r. (otp_email r, otp_type r, expiresAt r))
     (otps (run ascii_runtime two_spellings init_state)) =
     [(''a@x.com'', Reset, 900006), (''A@x.com'', Reset, 900007)] \<and>
   length (filter (\<lambda>r. normalize_email ascii_runtime (otp_email r) = ''a@x.com'' \<and>
                        otp_type r = Reset \<and> \<not> 8 > expiresAt r)
             (otps (run ascii_runtime two_spellings init_state))) = 2 \<and>
   status (fst (reset_password ascii_runtime test_libs 8
                  (run ascii_runtime two_spellings init_state)
                  ''a@x.com'' ''123456'' ''newpass1'')) = 200 \<and>
   status (fst (reset_password ascii_runtime test_libs 8
                  (run ascii_runtime two_spellings init_state)
                  ''A@x.com'' ''123456'' ''newpass2'')) = 200"
  by code_simp

section \<open>A consumed code cannot be used again\<close>

lemma verify_otp_200:
  "status (fst (verify_otp R now S em cd)) = 200 \<Longrightarrow>
   \<exists>r. findOne_otp S em cd Verification = Some r \<and>
       otps (snd (verify_otp R now S em cd)) = delete_first (\<lambda>x. otp_id x = otp_id r) (otps S)"
  by (cases "findOne_otp S em cd Verification")
     (simp_all add: verify_otp_def json_def deleteOne_otp_def split: if_splits)

lemma reset_password_200:
  "status (fst (reset_password R L now S em cd pw)) = 200 \<Longrightarrow>
   \<exists>r. findOne_otp S em cd Reset = Some r \<and>
       otps (snd (reset_password R L now S em cd pw)) =
         delete_first (\<lambda>x. otp_id x = otp_id r) (otps S)"
  by (cases "findOne_otp S em cd Reset")
     (simp_all add: reset_password_def Let_def json_def deleteOne_otp_def)

lemma find_SomeD: "find P xs = Some x \<Longrightarrow> x \<in> set xs \<and> P x"
  by (induction xs) (auto split: if_splits)

lemma consumed_not_found:
  assumes inv: "store_invariant R S"
    and f: "findOne_otp S em cd t = Some r"
    and o: "otps S' = delete_first (\<lambda>x. otp_id x = otp_id r) (otps S)"
  shows "findOne_otp S' em cd t = None"
proof -
  from f have r: "r \<in> set (otps S)" and k: "otp_key r = (em, t)"
    using find_SomeD [of "\<lambda>r. otp_email r = em \<and> otp_code r = cd \<and> otp_type r = t" "otps S" r]
    by (simp_all add: findOne_otp_def otp_key_def)
  from inv have dk: "distinct (map otp_key (otps S))" and di: "distinct (map otp_id (otps S))"
    by (simp_all add: store_invariant_def)
  have gone: "r \<notin> set (otps S')"
    unfolding o using di r by (rule delete_first_removes)
  have "x \<in> set (otps S') \<Longrightarrow> otp_key x \<noteq> (em, t)" for x
  proof
    assume x: "x \<in> set (otps S')" and kx: "otp_key x = (em, t)"
    from x have "x \<in> set (otps S)"
      unfolding o using set_delete_first [of "\<lambda>x. otp_id x = otp_id r" "otps S"]
      by (rule_tac subsetD)
    with dk r k kx have "x = r"
      by (simp add: distinct_map inj_on_def)
    with gone x show False by simp
  qed
  then have "\<not> (\<exists>x. x \<in> set (otps S') \<and> otp_email x = em \<and> otp_code x = cd \<and> otp_type x = t)"
    unfolding otp_key_def by blast
  then show ?thesis
    unfolding findOne_otp_def find_None_iff .
qed

lemma verify_otp_not_found:
  "findOne_otp S em cd Verification = None \<Longrightarrow>
   verify_otp R now S em cd = (invalid_verification_code, S)"
  by (simp add: verify_otp_def invalid_verification_code_def)

lemma reset_password_not_found:
  "findOne_otp S em cd Reset = None \<Longrightarrow>
   reset_password R L now S em cd pw = (invalid_reset_code, S)"
  by (simp add: reset_password_def invalid_reset_code_def)

text \<open>
  C4. In the state after any run from the empty database, when the verification handler
  accepts a code (status 200), the same request sent again is refused with status 400,
  whatever the clock reading; and when the reset handler accepts a code, the same e-mail
  and code sent again are refused with status 400, whatever the new password.
\<close>

theorem consumed_code_cannot_be_replayed:
  fixes R :: runtime and evs :: "(libs \<times> int \<times> event) list"
  defines "S \<equiv> run R evs init_state"
  shows
  "(status (fst (verify_otp R now S em cd)) = 200 \<longrightarrow>
      verify_otp R now' (snd (verify_otp R now S em cd)) em cd =
        (invalid_verification_code, snd (verify_otp R now S em cd))) \<and>
   (status (fst (reset_password R L now S em cd pw)) = 200 \<longrightarrow>
      reset_password R L' now' (snd (reset_password R L now S em cd pw)) em cd pw' =
        (invalid_reset_code, snd (reset_password R L now S em cd pw)))"
proof -
  have inv: "store_invariant R S"
    unfolding S_def by (rule invariant_reachable)
  have v: "verify_otp R now' (snd (verify_otp R now S em cd)) em cd =
        (invalid_verification_code, snd (verify_otp R now S em cd))"
    if "status (fst (verify_otp R now S em cd)) = 200"
  proof -
    from verify_otp_200 [OF that] obtain r
      where "findOne_otp S em cd Verification = Some r"
        and "otps (snd (verify_otp R now S em cd)) =
               delete_first (\<lambda>x. otp_id x = otp_id r) (otps S)"
      by blast
    with inv have "findOne_otp (snd (verify_otp R now S em cd)) em cd Verification = None"
      by (rule consumed_not_found)
    then show ?thesis
      by (rule verify_otp_not_found)
  qed
  have r: "reset_password R L' now' (snd (reset_password R L now S em cd pw)) em cd pw' =
        (invalid_reset_code, snd (reset_password R L now S em cd pw))"
    if "status (fst (reset_password R L now S em cd pw)) = 200"
  proof -
    from reset_password_200 [OF that] obtain r
      where "findOne_otp S em cd Reset = Some r"
        and "otps (snd (reset_password R L now S em cd pw)) =
               delete_first (\<lambda>x. otp_id x = otp_id r) (otps S)"
      by blast
    with inv have "findOne_otp (snd (reset_password R L now S em cd pw)) em cd Reset = None"
      by (rule consumed_not_found)
    then show ?thesis
      by (rule reset_password_not_found)
  qed
  from v r show ?thesis
    by blast
qed

theorem consumed_code_cannot_be_replayed_witness:
  "status (fst (verify_otp ascii_runtime 5 (run ascii_runtime signed_up init_state) ''a@x.com'' ''123456'')) = 200 \<and>
   verify_otp ascii_runtime 6 (snd (verify_otp ascii_runtime 5 (run ascii_runtime signed_up init_state) ''a@x.com'' ''123456''))
     ''a@x.com'' ''123456'' =
   (invalid_verification_code,
    snd (verify_otp ascii_runtime 5 (run ascii_runtime signed_up init_state) ''a@x.com'' ''123456'')) \<and>
   status (fst (reset_password ascii_runtime test_libs 7 (run ascii_runtime reset_requested init_state)
     ''a@x.com'' ''123456'' ''newpass1'')) = 200 \<and>
   reset_password ascii_runtime test_libs 8
     (snd (reset_password ascii_runtime test_libs 7 (run ascii_runtime reset_requested init_state)
        ''a@x.com'' ''123456'' ''newpass1''))
     ''a@x.com'' ''123456'' ''newpass2'' =
   (invalid_reset_code,
    snd (reset_password ascii_runtime test_libs 7 (run ascii_runtime reset_requested init_state)
      ''a@x.com'' ''123456'' ''newpass1''))"
proof -
  have v: "status (fst (verify_otp ascii_runtime 5 (run ascii_runtime signed_up init_state) ''a@x.com'' ''123456'')) = 200"
    by code_simp
  have r: "status (fst (reset_password ascii_runtime test_libs 7 (run ascii_runtime reset_requested init_state)
     ''a@x.com'' ''123456'' ''newpass1'')) = 200"
    by code_simp
  note a = consumed_code_cannot_be_replayed [where R = ascii_runtime and evs = signed_up and now = 5
      and em = "''a@x.com''" and cd = "''123456''" and now' = 6]
  note b = consumed_code_cannot_be_replayed [where R = ascii_runtime and evs = reset_requested and now = 7
      and em = "''a@x.com''" and cd = "''123456''" and L = test_libs and pw = "''newpass1''"
      and L' = test_libs and now' = 8 and pw' = "''newpass2''"]
  from a v have 1: "verify_otp ascii_runtime 6 (snd (verify_otp ascii_runtime 5 (run ascii_runtime signed_up init_state) ''a@x.com'' ''123456''))
     ''a@x.com'' ''123456'' =
   (invalid_verification_code,
    snd (verify_otp ascii_runtime 5 (run ascii_runtime signed_up init_state) ''a@x.com'' ''123456''))"
    by blast
  from b r have 2: "reset_password ascii_runtime test_libs 8
     (snd (reset_password ascii_runtime test_libs 7 (run ascii_runtime reset_requested init_state)
        ''a@x.com'' ''123456'' ''newpass1''))
     ''a@x.com'' ''123456'' ''newpass2'' =
   (invalid_reset_code,
    snd (reset_password ascii_runtime test_libs 7 (run ascii_runtime reset_requested init_state)
      ''a@x.com'' ''123456'' ''newpass1''))"
    by blast
  from v r 1 2 show ?thesis
    by blast
qed

section \<open>Login after a password reset\<close>

lemma find_update_first:
  assumes "\<And>x. P (f x) = P x"
  shows "find P (update_first P f xs) = map_option f (find P xs)"
  by (induction xs) (simp_all add: assms)

lemma reset_password_user:
  assumes "status (fst (reset_password R L now S em cd newPassword)) = 200"
    and "findOne_user R S em = Some u"
  shows "findOne_user R (snd (reset_password R L now S em cd newPassword)) em =
           Some (u\<lparr>password := bcrypt_hash L newPassword 10\<rparr>)"
proof -
  from reset_password_200 [OF assms(1)] obtain r where r: "findOne_otp S em cd Reset = Some r"
    by blast
  have u: "users (snd (reset_password R L now S em cd newPassword)) =
           update_first (\<lambda>u. email u = normalize_email R em)
             (\<lambda>u. u\<lparr>password := bcrypt_hash L newPassword 10\<rparr>) (users S)"
    by (simp add: reset_password_def Let_def deleteOne_otp_def r)
  have "find (\<lambda>u. email u = normalize_email R em)
          (update_first (\<lambda>u. email u = normalize_email R em)
             (\<lambda>u. u\<lparr>password := bcrypt_hash L newPassword 10\<rparr>) (users S)) =
        map_option (\<lambda>u. u\<lparr>password := bcrypt_hash L newPassword 10\<rparr>)
          (find (\<lambda>u. email u = normalize_email R em) (users S))"
    by (rule find_update_first) simp
  with assms(2) show ?thesis
    unfolding findOne_user_def u by simp
qed

text \<open>
  C7. Let the reset handler accept a code (status 200) for the e-mail of a verified
  user, and let the digest it stores verify exactly the new password (the contract of
  \<^verbatim>\<open>bcrypt.compare\<close> on the digest \<^verbatim>\<open>bcrypt.hash\<close> made). Then login with the new
  password succeeds, and login with any other password, in particular the old one when
  it differs from the new one, is refused with the invalid-credentials response.
\<close>

theorem reset_password_then_login:
  fixes R :: runtime and S :: state and L L' :: libs and now now' :: int
    and em cd newPassword oldPassword :: string
  defines "S' \<equiv> snd (reset_password R L now S em cd newPassword)"
  assumes ok: "status (fst (reset_password R L now S em cd newPassword)) = 200"
    and user: "findOne_user R S em = Some u"
    and verified: "isVerified u"
    and hasher: "\<And>p. bcrypt_compare L' p (bcrypt_hash L newPassword 10) \<longleftrightarrow> p = newPassword"
  shows "status (fst (login R L' now' S' em newPassword)) = 200 \<and>
         (\<forall>p. p \<noteq> newPassword \<longrightarrow> login R L' now' S' em p = (invalid_credentials, S')) \<and>
         (oldPassword \<noteq> newPassword \<longrightarrow>
            login R L' now' S' em oldPassword = (invalid_credentials, S'))"
proof -
  let ?u = "u\<lparr>password := bcrypt_hash L newPassword 10\<rparr>"
  have f: "findOne_user R S' em = Some ?u"
    unfolding S'_def by (rule reset_password_user [OF ok user])
  have v: "isVerified ?u"
    using verified by simp
  have "bcrypt_compare L' newPassword (password ?u)"
    by (simp add: hasher)
  with f v have 1: "status (fst (login R L' now' S' em newPassword)) = 200"
    by (simp add: login_success)
  have 2: "login R L' now' S' em p = (invalid_credentials, S')" if "p \<noteq> newPassword" for p
  proof -
    from that have "\<not> bcrypt_compare L' p (password ?u)"
      by (simp add: hasher)
    with f v show ?thesis
      by (rule login_wrong_password)
  qed
  from 1 2 show ?thesis
    by blast
qed

theorem reset_password_then_login_witness:
  "status (fst (login ascii_runtime test_libs 6 reset_requested_state ''a@x.com'' ''secret1'')) = 200 \<and>
   status (fst (reset_password ascii_runtime test_libs 7 reset_requested_state
                  ''a@x.com'' ''123456'' ''newpass1'')) = 200 \<and>
   status (fst (login ascii_runtime test_libs 8
                  (snd (reset_password ascii_runtime test_libs 7 reset_requested_state
                          ''a@x.com'' ''123456'' ''newpass1''))
                  ''a@x.com'' ''newpass1'')) = 200 \<and>
   login ascii_runtime test_libs 8
     (snd (reset_password ascii_runtime test_libs 7 reset_requested_state ''a@x.com'' ''123456'' ''newpass1''))
     ''a@x.com'' ''secret1'' =
   (invalid_credentials,
    snd (reset_password ascii_runtime test_libs 7 reset_requested_state ''a@x.com'' ''123456'' ''newpass1''))"
proof -
  have b: "status (fst (login ascii_runtime test_libs 6 reset_requested_state ''a@x.com'' ''secret1'')) = 200"
    by code_simp
  have ok: "status (fst (reset_password ascii_runtime test_libs 7 reset_requested_state
                  ''a@x.com'' ''123456'' ''newpass1'')) = 200"
    by code_simp
  have user: "findOne_user ascii_runtime reset_requested_state ''a@x.com'' =
                Some (hd (users reset_requested_state))"
    by code_simp
  have verified: "isVerified (hd (users reset_requested_state))"
    by code_simp
  have hasher: "bcrypt_compare test_libs p (bcrypt_hash test_libs ''newpass1'' 10) \<longleftrightarrow>
                  p = ''newpass1''" for p
    by (auto simp: test_libs_def)
  have d: "''secret1'' \<noteq> ''newpass1''"
    by simp
  from reset_password_then_login [OF ok user verified hasher, of 8 "''secret1''"] b ok d
  show ?thesis
    by blast
qed

section \<open>The profile and the settings\<close>

lemma filter_update_first:
  assumes "\<And>x. P (f x) = P x"
  shows "filter (\<lambda>x. \<not> P x) (update_first P f xs) = filter (\<lambda>x. \<not> P x) xs"
  by (induction xs) (simp_all add: assms)

lemma set_profile_frame:
  "credentials (set_profile R nm bi ph im u) = credentials u"
  "preferences (set_profile R nm bi ph im u) = preferences u"
  "user_id (set_profile R nm bi ph im u) = user_id u"
  "name (set_profile R None bi ph im u) = name u"
  "bio (set_profile R nm None ph im u) = bio u"
  "phoneNumber (set_profile R nm bi None im u) = phoneNumber u"
  "image_url (set_profile R nm bi ph None u) = image_url u"
  by (simp_all add: set_profile_def credentials_def Let_def split: option.splits)

lemma set_preferences_frame:
  "credentials (set_preferences p u) = credentials u"
  "user_id (set_preferences p u) = user_id u"
  "name (set_preferences p u) = name u"
  "bio (set_preferences p u) = bio u"
  "phoneNumber (set_preferences p u) = phoneNumber u"
  "image_url (set_preferences p u) = image_url u"
  "patch_notificationsEnabled p = None \<Longrightarrow>
     notificationsEnabled (preferences (set_preferences p u)) = notificationsEnabled (preferences u)"
  "patch_darkMode p = None \<Longrightarrow>
     darkMode (preferences (set_preferences p u)) = darkMode (preferences u)"
  "patch_newsletterSubscribed p = None \<Longrightarrow>
     newsletterSubscribed (preferences (set_preferences p u)) =
       newsletterSubscribed (preferences u)"
  by (simp_all add: set_preferences_def credentials_def Let_def split: option.splits)

lemma update_profile_state:
  "snd (update_profile R L now S tok nm bi ph im) =
     (case getSession L now tok of
        None \<Rightarrow> S
      | Some sess \<Rightarrow>
          S\<lparr>users := update_first (\<lambda>u. user_id u = userId sess)
                        (set_profile R nm bi ph im) (users S)\<rparr>)"
  by (simp add: update_profile_def Let_def split: option.splits)

lemma update_settings_state:
  "snd (update_settings L now S tok prefs) =
     (case getSession L now tok of
        None \<Rightarrow> S
      | Some sess \<Rightarrow>
          (case prefs of
             None \<Rightarrow> S
           | Some p \<Rightarrow>
               S\<lparr>users := update_first (\<lambda>u. user_id u = userId sess)
                             (set_preferences p) (users S)\<rparr>))"
  by (simp add: update_settings_def Let_def split: option.splits)

lemma update_profile_frame:
  fixes R :: runtime and S :: state and L :: libs and now :: int
    and tok nm bi ph im :: "string option"
  defines "P \<equiv> snd (update_profile R L now S tok nm bi ph im)"
  shows "map credentials (users P) = map credentials (users S)"
    and "map preferences (users P) = map preferences (users S)"
    and "otps P = otps S"
    and "nm = None \<Longrightarrow> map name (users P) = map name (users S)"
    and "bi = None \<Longrightarrow> map bio (users P) = map bio (users S)"
    and "ph = None \<Longrightarrow> map phoneNumber (users P) = map phoneNumber (users S)"
    and "im = None \<Longrightarrow> map image_url (users P) = map image_url (users S)"
    and "getSession L now tok = Some sess \<Longrightarrow>
           filter (\<lambda>u. user_id u \<noteq> userId sess) (users P) =
           filter (\<lambda>u. user_id u \<noteq> userId sess) (users S)"
    and "getSession L now tok = Some sess \<Longrightarrow>
           findById P (userId sess) =
           map_option (set_profile R nm bi ph im) (findById S (userId sess))"
  unfolding P_def update_profile_state findById_def
  by (simp_all add: map_update_first filter_update_first find_update_first set_profile_frame
      split: option.splits)

lemma update_settings_keeps:
  assumes "Option.bind prefs sel = None"
    and "\<And>p u. sel p = None \<Longrightarrow> g (set_preferences p u) = g u"
  shows "map g (users (snd (update_settings L now S tok prefs))) = map g (users S)"
proof (cases prefs)
  case None
  then show ?thesis
    by (simp add: update_settings_state split: option.splits)
next
  case (Some p)
  with assms(1) have "sel p = None"
    by simp
  then have "g (set_preferences p u) = g u" for u
    by (rule assms(2))
  then have "map g (update_first P (set_preferences p) xs) = map g xs" for P xs
    by (rule map_update_first)
  with Some show ?thesis
    by (simp add: update_settings_state split: option.splits)
qed

lemma update_settings_frame:
  fixes S :: state and L :: libs and now :: int and tok :: "string option"
    and prefs :: "preferences_patch option"
  defines "Q \<equiv> snd (update_settings L now S tok prefs)"
  shows "map credentials (users Q) = map credentials (users S)"
    and "map name (users Q) = map name (users S)"
    and "map bio (users Q) = map bio (users S)"
    and "map phoneNumber (users Q) = map phoneNumber (users S)"
    and "map image_url (users Q) = map image_url (users S)"
    and "otps Q = otps S"
    and "getSession L now tok = Some sess \<Longrightarrow>
           filter (\<lambda>u. user_id u \<noteq> userId sess) (users Q) =
           filter (\<lambda>u. user_id u \<noteq> userId sess) (users S)"
  unfolding Q_def update_settings_state
  by (simp_all add: map_update_first filter_update_first set_preferences_frame
      split: option.splits)

lemma update_settings_partial:
  fixes S :: state and L :: libs and now :: int and tok :: "string option"
    and prefs :: "preferences_patch option"
  defines "Q \<equiv> snd (update_settings L now S tok prefs)"
  shows "Option.bind prefs patch_notificationsEnabled = None \<Longrightarrow>
           map (\<lambda>u. notificationsEnabled (preferences u)) (users Q) =
           map (\<lambda>u. notificationsEnabled (preferences u)) (users S)"
    and "Option.bind prefs patch_darkMode = None \<Longrightarrow>
           map (\<lambda>u. darkMode (preferences u)) (users Q) =
           map (\<lambda>u. darkMode (preferences u)) (users S)"
    and "Option.bind prefs patch_newsletterSubscribed = None \<Longrightarrow>
           map (\<lambda>u. newsletterSubscribed (preferences u)) (users Q) =
           map (\<lambda>u. newsletterSubscribed (preferences u)) (users S)"
  unfolding Q_def
  by (erule update_settings_keeps, simp add: set_preferences_frame)+

lemma unauthenticated:
  "getSession L now tok = None \<Longrightarrow>
   update_profile R L now S tok nm bi ph im = (unauthorized, S) \<and>
   update_settings L now S tok prefs = (unauthorized, S)"
  by (simp add: update_profile_def update_settings_def unauthorized_def)

text \<open>
  C9. Without a session both handlers answer 401 and leave the state as it is. In every
  case the credential and identity fields (id, e-mail, digest, role, verification flag)
  of every user and the one-time codes stay as they were. The profile handler leaves the
  preferences alone and leaves each of name, bio, phone number and image alone when the
  request does not supply it; the settings handler leaves the profile fields alone and
  leaves each preference alone that the request does not supply. With a session, only
  the document of the session's user changes, and the profile handler writes the
  supplied fields into it.
\<close>

theorem profile_and_settings_frame:
  fixes R :: runtime and S :: state and L :: libs and now :: int
    and tok nm bi ph im :: "string option"
    and prefs :: "preferences_patch option"
  defines "P \<equiv> snd (update_profile R L now S tok nm bi ph im)"
    and "Q \<equiv> snd (update_settings L now S tok prefs)"
  shows
  "(getSession L now tok = None \<longrightarrow>
      update_profile R L now S tok nm bi ph im = (unauthorized, S) \<and>
      update_settings L now S tok prefs = (unauthorized, S)) \<and>
   map credentials (users P) = map credentials (users S) \<and>
   map credentials (users Q) = map credentials (users S) \<and>
   otps P = otps S \<and> otps Q = otps S \<and>
   (nm = None \<longrightarrow> map name (users P) = map name (users S)) \<and>
   (bi = None \<longrightarrow> map bio (users P) = map bio (users S)) \<and>
   (ph = None \<longrightarrow> map phoneNumber (users P) = map phoneNumber (users S)) \<and>
   (im = None \<longrightarrow> map image_url (users P) = map image_url (users S)) \<and>
   map preferences (users P) = map preferences (users S) \<and>
   map name (users Q) = map name (users S) \<and>
   map bio (users Q) = map bio (users S) \<and>
   map phoneNumber (users Q) = map phoneNumber (users S) \<and>
   map image_url (users Q) = map image_url (users S) \<and>
   (Option.bind prefs patch_notificationsEnabled = None \<longrightarrow>
      map (\<lambda>u. notificationsEnabled (preferences u)) (users Q) =
      map (\<lambda>u. notificationsEnabled (preferences u)) (users S)) \<and>
   (Option.bind prefs patch_darkMode = None \<longrightarrow>
      map (\<lambda>u. darkMode (preferences u)) (users Q) =
      map (\<lambda>u. darkMode (preferences u)) (users S)) \<and>
   (Option.bind prefs patch_newsletterSubscribed = None \<longrightarrow>
      map (\<lambda>u. newsletterSubscribed (preferences u)) (users Q) =
      map (\<lambda>u. newsletterSubscribed (preferences u)) (users S)) \<and>
   (\<forall>sess. getSession L now tok = Some sess \<longrightarrow>
      filter (\<lambda>u. user_id u \<noteq> userId sess) (users P) =
      filter (\<lambda>u. user_id u \<noteq> userId sess) (users S) \<and>
      filter (\<lambda>u. user_id u \<noteq> userId sess) (users Q) =
      filter (\<lambda>u. user_id u \<noteq> userId sess) (users S) \<and>
      findById P (userId sess) =
        map_option (set_profile R nm bi ph im) (findById S (userId sess)))"
  unfolding P_def Q_def
  by (intro conjI impI allI unauthenticated [THEN conjunct1] unauthenticated [THEN conjunct2]
      update_profile_frame update_settings_frame update_settings_partial)

theorem profile_and_settings_frame_witness:
  "update_profile ascii_runtime test_libs 9 signed_up_state None (Some ''Bob'') None None None =
     (unauthorized, signed_up_state) \<and>
   update_settings test_libs 9 signed_up_state None (Some dark_mode_only) =
     (unauthorized, signed_up_state) \<and>
   getSession test_libs 9 (Some ''fallback_secret_keep_it_safe.user'') =
     Some \<lparr>userId = 0, session_role = ''user''\<rparr> \<and>
   map name (users (snd (update_profile ascii_runtime test_libs 9 signed_up_state
     (Some ''fallback_secret_keep_it_safe.user'') (Some '' Bob '') None None None))) = [''Bob''] \<and>
   map bio (users (snd (update_profile ascii_runtime test_libs 9 signed_up_state
     (Some ''fallback_secret_keep_it_safe.user'') (Some '' Bob '') None None None))) =
     map bio (users signed_up_state) \<and>
   map credentials (users (snd (update_profile ascii_runtime test_libs 9 signed_up_state
     (Some ''fallback_secret_keep_it_safe.user'') (Some '' Bob '') None None None))) =
     map credentials (users signed_up_state) \<and>
   map preferences (users (snd (update_settings test_libs 9 signed_up_state
     (Some ''fallback_secret_keep_it_safe.user'') (Some dark_mode_only)))) =
     [\<lparr>notificationsEnabled = True, darkMode = True, newsletterSubscribed = False\<rparr>] \<and>
   map (\<lambda>u. notificationsEnabled (preferences u))
     (users (snd (update_settings test_libs 9 signed_up_state
        (Some ''fallback_secret_keep_it_safe.user'') (Some dark_mode_only)))) =
   map (\<lambda>u. notificationsEnabled (preferences u)) (users signed_up_state) \<and>
   map credentials (users (snd (update_settings test_libs 9 signed_up_state
     (Some ''fallback_secret_keep_it_safe.user'') (Some dark_mode_only)))) =
     map credentials (users signed_up_state)"
proof -
  have n: "getSession test_libs 9 None = None"
    by code_simp
  have g: "getSession test_libs 9 (Some ''fallback_secret_keep_it_safe.user'') =
     Some \<lparr>userId = 0, session_role = ''user''\<rparr>"
    by code_simp
  have c: "map name (users (snd (update_profile ascii_runtime test_libs 9 signed_up_state
     (Some ''fallback_secret_keep_it_safe.user'') (Some '' Bob '') None None None))) = [''Bob''] \<and>
     map preferences (users (snd (update_settings test_libs 9 signed_up_state
     (Some ''fallback_secret_keep_it_safe.user'') (Some dark_mode_only)))) =
     [\<lparr>notificationsEnabled = True, darkMode = True, newsletterSubscribed = False\<rparr>]"
    by code_simp
  have b: "Option.bind (Some dark_mode_only) patch_notificationsEnabled = None"
    by (simp add: dark_mode_only_def)
  note a = profile_and_settings_frame [where R = ascii_runtime and L = test_libs and now = 9 and S = signed_up_state
      and tok = None and nm = "Some ''Bob''" and bi = None and ph = None and im = None
      and prefs = "Some dark_mode_only"]
  note d = profile_and_settings_frame [where R = ascii_runtime and L = test_libs and now = 9 and S = signed_up_state
      and tok = "Some ''fallback_secret_keep_it_safe.user''" and nm = "Some '' Bob ''"
      and bi = None and ph = None and im = None and prefs = "Some dark_mode_only"]
  from a n have 1: "update_profile ascii_runtime test_libs 9 signed_up_state None (Some ''Bob'') None None None =
     (unauthorized, signed_up_state) \<and>
   update_settings test_libs 9 signed_up_state None (Some dark_mode_only) =
     (unauthorized, signed_up_state)"
    by blast
  from d b have 2: "map bio (users (snd (update_profile ascii_runtime test_libs 9 signed_up_state
     (Some ''fallback_secret_keep_it_safe.user'') (Some '' Bob '') None None None))) =
     map bio (users signed_up_state) \<and>
   map credentials (users (snd (update_profile ascii_runtime test_libs 9 signed_up_state
     (Some ''fallback_secret_keep_it_safe.user'') (Some '' Bob '') None None None))) =
     map credentials (users signed_up_state) \<and>
   map (\<lambda>u. notificationsEnabled (preferences u))
     (users (snd (update_settings test_libs 9 signed_up_state
        (Some ''fallback_secret_keep_it_safe.user'') (Some dark_mode_only)))) =
   map (\<lambda>u. notificationsEnabled (preferences u)) (users signed_up_state) \<and>
   map credentials (users (snd (update_settings test_libs 9 signed_up_state
     (Some ''fallback_secret_keep_it_safe.user'') (Some dark_mode_only)))) =
     map credentials (users signed_up_state)"
    by blast
  from 1 2 g c show ?thesis
    by blast
qed

end
